theory Spec2Isabelle
  imports Main
begin

section \<open>The MathJax bridge of the ChromeVox content script\<close>

text \<open>
  A shallow embedding of \<^verbatim>\<open>chromevox/injected/mathjax.js\<close>. The bridge owns one
  message channel, decodes each message arriving on its local port, calls the external
  adapter \<^verbatim>\<open>cvox.MathJaxExternalUtil\<close>, and posts result envelopes back on the port.

  What the bridge does is recorded in a \<open>world\<close>: the messages it posted on its port, the
  calls it made to the adapter (with the functions it handed over), the calls it made to
  \<^verbatim>\<open>window.postMessage\<close>, and the handler registered on the port. The functions the bridge creates are
  first-order values of the type \<open>closure\<close>; \<open>call_closure\<close> runs their bodies.
\<close>

subsection \<open>Values\<close>

text \<open>
  The values that travel through a message port: plain data. An object is the list of its
  own properties in insertion order.
\<close>

datatype jsval =
    JUndefined
  | JNull
  | JBool bool
  | JNum int
  | JStr string
  | JObj "(string \<times> jsval) list"

datatype fault = TypeError | DataCloneError

text \<open>
  Property read \<^verbatim>\<open>v.name\<close>. Reading a property of \<^verbatim>\<open>undefined\<close> or \<^verbatim>\<open>null\<close> throws a
  TypeError; an object yields its own property or \<^verbatim>\<open>undefined\<close>; any other primitive
  yields \<^verbatim>\<open>undefined\<close>. The source reads only the names \<^verbatim>\<open>cmd\<close>, \<^verbatim>\<open>id\<close>, \<^verbatim>\<open>args\<close>, \<^verbatim>\<open>alt\<close>,
  \<^verbatim>\<open>sig\<close> and \<^verbatim>\<open>data\<close>, none of which a built-in prototype defines.
\<close>

fun get_prop :: "jsval \<Rightarrow> string \<Rightarrow> fault + jsval" where
  "get_prop JUndefined name = Inl TypeError"
| "get_prop JNull name = Inl TypeError"
| "get_prop (JObj fs) name = Inr (case map_of fs name of None \<Rightarrow> JUndefined | Some v \<Rightarrow> v)"
| "get_prop v name = Inr JUndefined"

text \<open>The \<open>i\<close>-th actual argument of a call; a missing argument is \<^verbatim>\<open>undefined\<close>.\<close>

definition arg :: "jsval list \<Rightarrow> nat \<Rightarrow> jsval" where
  "arg args i = (if i < length args then args ! i else JUndefined)"

subsection \<open>Closures, adapter calls and the world\<close>

text \<open>
  The four function expressions of the source, with the variables they capture:
  the port handler of \<^verbatim>\<open>initMessage\<close>; the function returned by \<^verbatim>\<open>getMathmlCallback_\<close>
  (capturing \<^verbatim>\<open>callbackId\<close>); the continuations built by \<^verbatim>\<open>texToMml\<close> and by
  \<^verbatim>\<open>asciiMathToMml\<close> (capturing \<^verbatim>\<open>callbackId\<close> and \<^verbatim>\<open>cvoxId\<close>).
\<close>

datatype closure =
    OnMessage
  | MathmlCallback jsval
  | TexToMmlCont jsval jsval
  | AsciiMathToMmlCont jsval jsval

text \<open>The calls the bridge makes to \<^verbatim>\<open>cvox.MathJaxExternalUtil\<close>, with their arguments.\<close>

datatype adapter_call =
    ExtIsActive
  | ExtGetAllJax closure
  | ExtRegisterSignal closure jsval
  | ExtInjectConfigScript
  | ExtInjectLoadScript
  | ExtTexToMml jsval bool closure
  | ExtAsciiMathToMml jsval bool closure

text \<open>
  Modelled from the spec: \<^verbatim>\<open>cvox.MathJaxExternalUtil\<close> is not part of the source file. Its
  capability interface gives \<^verbatim>\<open>isPresent() -> bool\<close>, synchronous; the other capabilities
  return nothing and invoke the function they were handed later, on their own schedule.
  The adapter is a parameter: \<open>present\<close> is what its \<^verbatim>\<open>isActive()\<close> returns.
\<close>

record adapter =
  present :: bool

record world =
  channels_created :: nat
  port1_onmessage :: "closure option"
  port2_offers :: "(string \<times> string) list"
  sent :: "jsval list"
  calls :: "adapter_call list"
  uncaught :: "fault list"

text \<open>
  \<open>channels_created\<close> counts the evaluations of \<^verbatim>\<open>new MessageChannel()\<close>;
  \<open>port1_onmessage\<close> and \<open>sent\<close> are the state of the channel that the variable
  \<^verbatim>\<open>channel_\<close> holds; \<open>port2_offers\<close> lists the calls of \<^verbatim>\<open>window.postMessage\<close> that the
  bridge made with \<^verbatim>\<open>[channel_.port2]\<close> as their second argument, each as the pair of its
  first and third argument; \<open>uncaught\<close> lists the faults that reached the host.

  A run of bridge code either returns, with the world it leaves, or throws, with the fault
  and the world at that point.
\<close>

type_synonym outcome = "(fault \<times> world) + world"

text \<open>
  What a call of \<^verbatim>\<open>window.postMessage\<close> does is the host's business and not written in
  the source: whether the three arguments are accepted in the order the source gives
  them, and whether a port can be handed over again. The host is a parameter: given the
  world in which the call has been made, it lets the call return (\<open>None\<close>) or makes it
  throw.
\<close>

type_synonym host = "world \<Rightarrow> fault option"

definition read_prop :: "jsval \<Rightarrow> string \<Rightarrow> world \<Rightarrow> (jsval \<Rightarrow> outcome) \<Rightarrow> outcome" where
  "read_prop v name w k = (case get_prop v name of Inl f \<Rightarrow> Inl (f, w) | Inr x \<Rightarrow> k x)"

definition then_do :: "outcome \<Rightarrow> (world \<Rightarrow> outcome) \<Rightarrow> outcome" where
  "then_do r k = (case r of Inl e \<Rightarrow> Inl e | Inr w \<Rightarrow> k w)"

definition adapter_does :: "adapter_call \<Rightarrow> world \<Rightarrow> world" where
  "adapter_does c w = w\<lparr>calls := calls w @ [c]\<rparr>"

subsection \<open>The bridge\<close>

text \<open>\<^verbatim>\<open>var channel_ = new MessageChannel();\<close> a fresh channel, nothing registered or sent.\<close>

definition new_MessageChannel :: "world \<Rightarrow> world" where
  "new_MessageChannel w =
     w\<lparr>channels_created := Suc (channels_created w), port1_onmessage := None,
       port2_offers := [], sent := []\<rparr>"

text \<open>
  \<^verbatim>\<open>window.postMessage(message, [channel_.port2], targetOrigin)\<close>, the arguments in the
  order of the source. The call is recorded; the host decides how it ends.
\<close>

definition window_postMessage :: "host \<Rightarrow> string \<Rightarrow> string \<Rightarrow> world \<Rightarrow> outcome" where
  "window_postMessage h message targetOrigin w =
     (let w' = w\<lparr>port2_offers := port2_offers w @ [(message, targetOrigin)]\<rparr>
      in case h w' of None \<Rightarrow> Inr w' | Some f \<Rightarrow> Inl (f, w'))"

definition initMessage :: "host \<Rightarrow> world \<Rightarrow> outcome" where
  "initMessage h w =
     window_postMessage h ''cvox.MathJaxPortSetup'' ''*'' (w\<lparr>port1_onmessage := Some OnMessage\<rparr>)"

definition postMessage :: "string \<Rightarrow> jsval \<Rightarrow> jsval \<Rightarrow> world \<Rightarrow> world" where
  "postMessage cmd callbackId args w =
     w\<lparr>sent := sent w @ [JObj [(''cmd'', JStr cmd), (''id'', callbackId), (''args'', args)]]\<rparr>"

definition getMathmlCallback :: "jsval \<Rightarrow> closure" where
  "getMathmlCallback callbackId = MathmlCallback callbackId"

definition getAllJax :: "jsval \<Rightarrow> world \<Rightarrow> world" where
  "getAllJax callbackId w = adapter_does (ExtGetAllJax (getMathmlCallback callbackId)) w"

definition registerSignal :: "jsval \<Rightarrow> jsval \<Rightarrow> world \<Rightarrow> world" where
  "registerSignal callbackId signal w =
     adapter_does (ExtRegisterSignal (getMathmlCallback callbackId) signal) w"

definition injectScripts :: "world \<Rightarrow> world" where
  "injectScripts w = adapter_does ExtInjectLoadScript (adapter_does ExtInjectConfigScript w)"

definition texToMml :: "jsval \<Rightarrow> jsval \<Rightarrow> jsval \<Rightarrow> world \<Rightarrow> world" where
  "texToMml callbackId tex cvoxId w =
     adapter_does (ExtTexToMml tex True (TexToMmlCont callbackId cvoxId)) w"

definition asciiMathToMml :: "jsval \<Rightarrow> jsval \<Rightarrow> jsval \<Rightarrow> world \<Rightarrow> world" where
  "asciiMathToMml callbackId asciiMath cvoxId w =
     adapter_does (ExtAsciiMathToMml asciiMath True (AsciiMathToMmlCont callbackId cvoxId)) w"

definition isActive :: "adapter \<Rightarrow> jsval \<Rightarrow> world \<Rightarrow> world" where
  "isActive ad callbackId w =
     postMessage ''Active'' callbackId (JObj [(''status'', JBool (present ad))])
       (adapter_does ExtIsActive w)"

text \<open>
  \<^verbatim>\<open>execMessage\<close>: \<^verbatim>\<open>msg.args\<close> is read first; the \<^verbatim>\<open>switch\<close> compares \<^verbatim>\<open>msg.cmd\<close> with each
  label by strict equality, in the order of the source, and has no default branch. The
  arguments of a handler call are read from left to right before the call.
\<close>

definition execMessage :: "adapter \<Rightarrow> jsval \<Rightarrow> world \<Rightarrow> outcome" where
  "execMessage ad msg w =
     read_prop msg ''args'' w (\<lambda>args.
     read_prop msg ''cmd'' w (\<lambda>cmd.
       if cmd = JStr ''Active'' then
         read_prop msg ''id'' w (\<lambda>k. Inr (isActive ad k w))
       else if cmd = JStr ''AllJax'' then
         read_prop msg ''id'' w (\<lambda>k. Inr (getAllJax k w))
       else if cmd = JStr ''AsciiMathToMml'' then
         read_prop msg ''id'' w (\<lambda>k.
         read_prop args ''alt'' w (\<lambda>alt.
         read_prop args ''id'' w (\<lambda>cvoxId. Inr (asciiMathToMml k alt cvoxId w))))
       else if cmd = JStr ''InjectScripts'' then
         Inr (injectScripts w)
       else if cmd = JStr ''RegSig'' then
         read_prop msg ''id'' w (\<lambda>k.
         read_prop args ''sig'' w (\<lambda>signal. Inr (registerSignal k signal w)))
       else if cmd = JStr ''TexToMml'' then
         read_prop msg ''id'' w (\<lambda>k.
         read_prop args ''alt'' w (\<lambda>alt.
         read_prop args ''id'' w (\<lambda>cvoxId. Inr (texToMml k alt cvoxId w))))
       else Inr w))"

text \<open>
  Calling one of the bridge's functions with a list of actual arguments. The function from
  \<^verbatim>\<open>getMathmlCallback_\<close> posts a \<^verbatim>\<open>NodeMml\<close> message; the two continuations build that
  function anew and call it with the markup and the captured \<^verbatim>\<open>cvoxId\<close>; the port handler
  passes \<^verbatim>\<open>evt.data\<close> to \<^verbatim>\<open>execMessage\<close>.
\<close>

function call_closure :: "adapter \<Rightarrow> closure \<Rightarrow> jsval list \<Rightarrow> world \<Rightarrow> outcome" where
  "call_closure ad OnMessage args w =
     read_prop (arg args 0) ''data'' w (\<lambda>d. execMessage ad d w)"
| "call_closure ad (MathmlCallback callbackId) args w =
     Inr (postMessage ''NodeMml'' callbackId
            (JObj [(''mathml'', arg args 0), (''elementId'', arg args 1)]) w)"
| "call_closure ad (TexToMmlCont callbackId cvoxId) args w =
     call_closure ad (getMathmlCallback callbackId) [arg args 0, cvoxId] w"
| "call_closure ad (AsciiMathToMmlCont callbackId cvoxId) args w =
     call_closure ad (getMathmlCallback callbackId) [arg args 0, cvoxId] w"
  by pat_completeness auto
termination
  by (relation "measure (\<lambda>(ad, c, args, w). case c of MathmlCallback k \<Rightarrow> 0 | _ \<Rightarrow> Suc 0)")
     (auto simp: getMathmlCallback_def)

text \<open>Loading the script: the channel is created, then \<^verbatim>\<open>initMessage\<close> is called.\<close>

definition module_load :: "host \<Rightarrow> world \<Rightarrow> outcome" where
  "module_load h w = initMessage h (new_MessageChannel w)"

subsection \<open>The bridge as a reactive system\<close>

text \<open>
  After the script has loaded, bridge code runs only when a message arrives on the local
  port or when the adapter invokes a function it was handed. An arriving message is
  wrapped in an event object and passed to the registered handler.
\<close>

definition deliver :: "adapter \<Rightarrow> jsval \<Rightarrow> world \<Rightarrow> outcome" where
  "deliver ad d w =
     (case port1_onmessage w of
        None \<Rightarrow> Inr w
      | Some h \<Rightarrow> call_closure ad h [JObj [(''data'', d)]] w)"

fun callback_of :: "adapter_call \<Rightarrow> closure option" where
  "callback_of (ExtGetAllJax c) = Some c"
| "callback_of (ExtRegisterSignal c s) = Some c"
| "callback_of (ExtTexToMml t d c) = Some c"
| "callback_of (ExtAsciiMathToMml a d c) = Some c"
| "callback_of c = None"

text \<open>
  \<open>Incoming d\<close>: the message \<open>d\<close> arrives on the port. \<open>Invoke i args\<close>: the adapter invokes,
  with the arguments \<open>args\<close>, the function it was handed in the \<open>i\<close>-th call made to it.
\<close>

datatype event = Incoming jsval | Invoke nat "jsval list"

definition step :: "adapter \<Rightarrow> event \<Rightarrow> world \<Rightarrow> outcome" where
  "step ad e w =
     (case e of
        Incoming d \<Rightarrow> deliver ad d w
      | Invoke i args \<Rightarrow>
          (if i < length (calls w) then
             (case callback_of (calls w ! i) of
                None \<Rightarrow> Inr w
              | Some c \<Rightarrow> call_closure ad c args w)
           else Inr w))"

text \<open>A fault that leaves bridge code is reported by the host; the next event is processed.\<close>

definition settle :: "outcome \<Rightarrow> world" where
  "settle r = (case r of Inl (f, w) \<Rightarrow> w\<lparr>uncaught := uncaught w @ [f]\<rparr> | Inr w \<Rightarrow> w)"

fun run :: "adapter \<Rightarrow> event list \<Rightarrow> world \<Rightarrow> world" where
  "run ad [] w = w"
| "run ad (e # es) w = run ad es (settle (step ad e w))"

text \<open>The adapter invokes one function several times, once per argument list.\<close>

fun call_many :: "adapter \<Rightarrow> closure \<Rightarrow> jsval list list \<Rightarrow> world \<Rightarrow> outcome" where
  "call_many ad c [] w = Inr w"
| "call_many ad c (a # as) w = then_do (call_closure ad c a w) (call_many ad c as)"

definition blank :: world where
  "blank = \<lparr>channels_created = 0, port1_onmessage = None, port2_offers = [],
            sent = [], calls = [], uncaught = []\<rparr>"

text \<open>
  Two hosts. The first accepts the arguments in the order of the source and hands a port
  over once: a call that offers the port again throws. The second takes the second
  argument for the target origin and the third for the list of ports: every call as the
  source writes it throws.
\<close>

definition legacy_host :: host where
  "legacy_host w = (if length (port2_offers w) \<le> 1 then None else Some DataCloneError)"

definition standard_host :: host where
  "standard_host w = Some TypeError"

text \<open>
  The world once the script has loaded on a host that handed the remote port over. On a
  host that did not, no message ever arrives on the local port.
\<close>

definition loaded :: world where
  "loaded = settle (module_load legacy_host blank)"

text \<open>
  Modelled from the spec: the adapter's \<^verbatim>\<open>subscribe(eventName, callback)\<close> keeps the
  functions registered for a signal, and a firing of the signal invokes each of them, in
  the order of registration, with the markup and element id of the firing.
\<close>

fun registered_for :: "jsval \<Rightarrow> adapter_call \<Rightarrow> closure list" where
  "registered_for s (ExtRegisterSignal c s') = (if s' = s then [c] else [])"
| "registered_for s c = []"

definition subscribers :: "jsval \<Rightarrow> world \<Rightarrow> closure list" where
  "subscribers s w = concat (map (registered_for s) (calls w))"

fun call_each :: "adapter \<Rightarrow> closure list \<Rightarrow> jsval list \<Rightarrow> world \<Rightarrow> outcome" where
  "call_each ad [] args w = Inr w"
| "call_each ad (c # cs) args w = then_do (call_closure ad c args w) (call_each ad cs args)"

definition fire :: "adapter \<Rightarrow> jsval \<Rightarrow> jsval list \<Rightarrow> world \<Rightarrow> outcome" where
  "fire ad s args w = call_each ad (subscribers s w) args w"

fun fire_many :: "adapter \<Rightarrow> jsval \<Rightarrow> jsval list list \<Rightarrow> world \<Rightarrow> outcome" where
  "fire_many ad s [] w = Inr w"
| "fire_many ad s (a # as) w = then_do (fire ad s a w) (fire_many ad s as)"

text \<open>The \<^verbatim>\<open>NodeMml\<close> message for correlation id \<open>k\<close>, markup \<open>m\<close> and element id \<open>e\<close>.\<close>

abbreviation node_envelope :: "jsval \<Rightarrow> jsval \<Rightarrow> jsval \<Rightarrow> jsval" where
  "node_envelope k m e \<equiv>
     JObj [(''cmd'', JStr ''NodeMml''), (''id'', k),
           (''args'', JObj [(''mathml'', m), (''elementId'', e)])]"

text \<open>Reading a received result envelope: its \<^verbatim>\<open>args.elementId\<close>.\<close>

definition elementId_of :: "jsval \<Rightarrow> fault + jsval" where
  "elementId_of v =
     (case get_prop v ''args'' of Inl f \<Rightarrow> Inl f | Inr a \<Rightarrow> get_prop a ''elementId'')"

text \<open>
  The wire shape of a result envelope: an object with exactly the properties \<^verbatim>\<open>cmd\<close>,
  \<^verbatim>\<open>id\<close>, \<^verbatim>\<open>args\<close>, whose \<^verbatim>\<open>cmd\<close> is the string \<^verbatim>\<open>Active\<close> or the string \<^verbatim>\<open>NodeMml\<close>.
\<close>

definition result_envelope :: "jsval \<Rightarrow> bool" where
  "result_envelope v =
     (case v of
        JObj fs \<Rightarrow> map fst fs = [''cmd'', ''id'', ''args'']
          \<and> (get_prop v ''cmd'' = Inr (JStr ''Active'')
             \<or> get_prop v ''cmd'' = Inr (JStr ''NodeMml''))
      | _ \<Rightarrow> False)"

text \<open>The display flag of a conversion request; other adapter calls carry none.\<close>

fun display_flag_true :: "adapter_call \<Rightarrow> bool" where
  "display_flag_true (ExtTexToMml t d c) = d"
| "display_flag_true (ExtAsciiMathToMml a d c) = d"
| "display_flag_true c = True"


text \<open>
  The calls to the adapter that occur in the source: one call site per equation that
  yields \<open>True\<close>, with the function expression and the display flag written there.
\<close>

fun bridge_call :: "adapter_call \<Rightarrow> bool" where
  "bridge_call ExtIsActive = True"
| "bridge_call (ExtGetAllJax (MathmlCallback k)) = True"
| "bridge_call (ExtRegisterSignal (MathmlCallback k) s) = True"
| "bridge_call ExtInjectConfigScript = True"
| "bridge_call ExtInjectLoadScript = True"
| "bridge_call (ExtTexToMml t True (TexToMmlCont k e)) = True"
| "bridge_call (ExtAsciiMathToMml a True (AsciiMathToMmlCont k e)) = True"
| "bridge_call c = False"

text \<open>The correlation id that a function of the bridge has captured.\<close>

fun captured_id :: "closure \<Rightarrow> jsval option" where
  "captured_id OnMessage = None"
| "captured_id (MathmlCallback k) = Some k"
| "captured_id (TexToMmlCont k e) = Some k"
| "captured_id (AsciiMathToMmlCont k e) = Some k"

text \<open>The messages that arrive on the port in a list of events.\<close>

fun delivered :: "event list \<Rightarrow> jsval list" where
  "delivered [] = []"
| "delivered (Incoming d # es) = d # delivered es"
| "delivered (Invoke i args # es) = delivered es"

text \<open>
  An invariant of runs: the port handler, if registered, is the one of \<^verbatim>\<open>initMessage\<close>, and
  every id of a posted message and every id captured by a function handed to the adapter
  is among the ids \<open>K\<close> read from the messages that have arrived.
\<close>

definition traceable :: "(fault + jsval) set \<Rightarrow> world \<Rightarrow> bool" where
  "traceable K w =
     ((port1_onmessage w = None \<or> port1_onmessage w = Some OnMessage)
      \<and> (\<forall>v \<in> set (sent w). get_prop v ''id'' \<in> K)
      \<and> (\<forall>c \<in> set (calls w). \<forall>f. callback_of c = Some f \<longrightarrow>
            (\<exists>k. captured_id f = Some k \<and> Inr k \<in> K)))"

section \<open>Properties\<close>

subsection \<open>Shared facts\<close>

lemma read_prop_Inr [simp]: "get_prop v name = Inr x \<Longrightarrow> read_prop v name w k = k x"
  by (simp add: read_prop_def)

lemma read_prop_Inl [simp]: "get_prop v name = Inl f \<Longrightarrow> read_prop v name w k = Inl (f, w)"
  by (simp add: read_prop_def)

lemma get_prop_defined: "get_prop v name = Inr x \<Longrightarrow> \<exists>y. get_prop v name' = Inr y"
  by (cases v) auto

lemma get_prop_nullish: "a = JUndefined \<or> a = JNull \<Longrightarrow> get_prop a name = Inl TypeError"
  by auto

lemma get_prop_value:
  "a \<noteq> JUndefined \<Longrightarrow> a \<noteq> JNull \<Longrightarrow>
   get_prop a name =
     Inr (case a of JObj fs \<Rightarrow> (case map_of fs name of None \<Rightarrow> JUndefined | Some x \<Rightarrow> x)
          | _ \<Rightarrow> JUndefined)"
  by (cases a) simp_all

lemma call_mathml [simp]:
  "call_closure ad (getMathmlCallback k) args w =
     Inr (w\<lparr>sent := sent w @ [JObj [(''cmd'', JStr ''NodeMml''), (''id'', k),
            (''args'', JObj [(''mathml'', arg args 0), (''elementId'', arg args 1)])]]\<rparr>)"
  by (simp add: getMathmlCallback_def postMessage_def)

lemma arg_simps [simp]:
  "arg (a # as) 0 = a" "arg [] i = JUndefined" "arg (a # as) (Suc i) = arg as i"
  by (simp_all add: arg_def)

subsection \<open>Presence check\<close>

text \<open>
  C3: every dispatch of an \<^verbatim>\<open>Active\<close> command with correlation id \<open>k\<close> returns with exactly
  one more message posted on the port than before: the envelope with cmd \<^verbatim>\<open>Active\<close>, id
  \<open>k\<close> and args holding the single field \<^verbatim>\<open>status\<close>, the boolean the adapter's presence
  check returned. The envelope is in the world that the dispatch call itself returns, so
  it is emitted before the call returns; the only adapter call made is the presence check.
\<close>

theorem active_emits_one_envelope:
  assumes "get_prop msg ''cmd'' = Inr (JStr ''Active'')"
    and "get_prop msg ''id'' = Inr k"
  shows "execMessage ad msg w =
           Inr (w\<lparr>sent := sent w @ [JObj [(''cmd'', JStr ''Active''), (''id'', k),
                    (''args'', JObj [(''status'', JBool (present ad))])]],
                 calls := calls w @ [ExtIsActive]\<rparr>)"
proof -
  obtain a where "get_prop msg ''args'' = Inr a"
    using get_prop_defined [OF assms(1)] by blast
  then show ?thesis
    using assms by (simp add: execMessage_def isActive_def postMessage_def adapter_does_def)
qed

theorem active_scenario_witness:
  "execMessage \<lparr>present = True\<rparr>
     (JObj [(''cmd'', JStr ''Active''), (''id'', JStr ''1''), (''args'', JObj [])]) loaded =
   Inr (loaded\<lparr>sent := sent loaded @ [JObj [(''cmd'', JStr ''Active''), (''id'', JStr ''1''),
                   (''args'', JObj [(''status'', JBool True)])]],
               calls := calls loaded @ [ExtIsActive]\<rparr>)"
  using active_emits_one_envelope [of "JObj [(''cmd'', JStr ''Active''), (''id'', JStr ''1''),
    (''args'', JObj [])]" "JStr ''1''" "\<lparr>present = True\<rparr>" loaded]
  by simp

subsection \<open>Conversions\<close>

text \<open>
  C1: a \<^verbatim>\<open>TexToMml\<close> or \<^verbatim>\<open>AsciiMathToMml\<close> command with correlation id \<open>k\<close>, expression
  \<open>t\<close> (the args field \<^verbatim>\<open>alt\<close>) and element id \<open>e\<close> (the args field \<^verbatim>\<open>id\<close>) makes exactly
  one adapter call, the conversion of \<open>t\<close>, and posts nothing by itself. Whenever the
  adapter invokes the continuation it was handed, with markup \<open>m\<close>, exactly one message is
  posted: the envelope with cmd \<^verbatim>\<open>NodeMml\<close>, id \<open>k\<close>, and args \<^verbatim>\<open>mathml\<close> \<open>m\<close> and \<^verbatim>\<open>elementId\<close>
  \<open>e\<close>. So one invocation gives exactly one result envelope.
\<close>

theorem conversion_emits_one_envelope:
  assumes "get_prop msg ''cmd'' = Inr (JStr c)"
    and "c = ''TexToMml'' \<or> c = ''AsciiMathToMml''"
    and "get_prop msg ''id'' = Inr k"
    and "get_prop msg ''args'' = Inr a"
    and "get_prop a ''alt'' = Inr t"
    and "get_prop a ''id'' = Inr e"
    and "cont = (if c = ''TexToMml'' then TexToMmlCont k e else AsciiMathToMmlCont k e)"
  shows "execMessage ad msg w =
           Inr (w\<lparr>calls := calls w @
                  [if c = ''TexToMml'' then ExtTexToMml t True cont
                   else ExtAsciiMathToMml t True cont]\<rparr>)
         \<and> call_closure ad cont (m # rest) w' =
           Inr (w'\<lparr>sent := sent w' @ [JObj [(''cmd'', JStr ''NodeMml''), (''id'', k),
                     (''args'', JObj [(''mathml'', m), (''elementId'', e)])]]\<rparr>)"
  using assms
  by (auto simp: execMessage_def texToMml_def asciiMathToMml_def adapter_does_def)

lemma loaded_eq:
  "loaded = \<lparr>channels_created = Suc 0, port1_onmessage = Some OnMessage,
             port2_offers = [(''cvox.MathJaxPortSetup'', ''*'')],
             sent = [], calls = [], uncaught = []\<rparr>"
  by (simp add: loaded_def module_load_def initMessage_def window_postMessage_def
      new_MessageChannel_def blank_def settle_def legacy_host_def)

lemma loaded_fields: "sent loaded = []" "calls loaded = []"
  by (simp_all add: loaded_eq)

theorem tex_scenario_witness:
  "run \<lparr>present = True\<rparr>
     [Incoming (JObj [(''cmd'', JStr ''TexToMml''), (''id'', JStr ''2''),
        (''args'', JObj [(''alt'', JStr ''x^2''), (''id'', JStr ''elemA'')])]),
      Invoke 0 [JStr ''<math>...</math>'']] loaded =
   loaded\<lparr>calls := [ExtTexToMml (JStr ''x^2'') True (TexToMmlCont (JStr ''2'') (JStr ''elemA''))],
          sent := [JObj [(''cmd'', JStr ''NodeMml''), (''id'', JStr ''2''),
                    (''args'', JObj [(''mathml'', JStr ''<math>...</math>''),
                                     (''elementId'', JStr ''elemA'')])]]\<rparr>"
proof -
  let ?msg = "JObj [(''cmd'', JStr ''TexToMml''), (''id'', JStr ''2''),
        (''args'', JObj [(''alt'', JStr ''x^2''), (''id'', JStr ''elemA'')])]"
  let ?cont = "TexToMmlCont (JStr ''2'') (JStr ''elemA'')"
  let ?w1 = "loaded\<lparr>calls := [ExtTexToMml (JStr ''x^2'') True ?cont]\<rparr>"
  have both: "execMessage \<lparr>present = True\<rparr> ?msg loaded = Inr ?w1
      \<and> call_closure \<lparr>present = True\<rparr> ?cont [JStr ''<math>...</math>''] ?w1 =
        Inr (?w1\<lparr>sent := sent ?w1 @ [JObj [(''cmd'', JStr ''NodeMml''), (''id'', JStr ''2''),
                    (''args'', JObj [(''mathml'', JStr ''<math>...</math>''),
                                     (''elementId'', JStr ''elemA'')])]]\<rparr>)"
    using conversion_emits_one_envelope [of ?msg "''TexToMml''" "JStr ''2''"
        "JObj [(''alt'', JStr ''x^2''), (''id'', JStr ''elemA'')]" "JStr ''x^2''"
        "JStr ''elemA''" ?cont "\<lparr>present = True\<rparr>" loaded "JStr ''<math>...</math>''" "[]" ?w1]
    by (simp add: loaded_eq)
  have one: "step \<lparr>present = True\<rparr> (Incoming ?msg) loaded = Inr ?w1"
    using both by (simp add: step_def deliver_def loaded_eq)
  have two: "step \<lparr>present = True\<rparr> (Invoke 0 [JStr ''<math>...</math>'']) ?w1 =
      Inr (?w1\<lparr>sent := sent ?w1 @ [JObj [(''cmd'', JStr ''NodeMml''), (''id'', JStr ''2''),
                    (''args'', JObj [(''mathml'', JStr ''<math>...</math>''),
                                     (''elementId'', JStr ''elemA'')])]]\<rparr>)"
    using both by (simp add: step_def)
  show ?thesis
    by (simp add: one two settle_def) (simp add: loaded_eq)
qed

subsection \<open>Dispatch\<close>

text \<open>
  C4, as the claim states it, fails: a message that names the command \<^verbatim>\<open>TexToMml\<close> and has
  no \<^verbatim>\<open>args\<close> field makes the dispatch throw before any handler is invoked; the world is
  unchanged, so no adapter call has been made.
\<close>

theorem known_command_no_handler_counterexample:
  "execMessage \<lparr>present = True\<rparr>
     (JObj [(''cmd'', JStr ''TexToMml''), (''id'', JStr ''2'')]) loaded = Inl (TypeError, loaded)"
  by (simp add: execMessage_def)

text \<open>
  C4, amended: let the message's \<^verbatim>\<open>cmd\<close>, \<^verbatim>\<open>id\<close> and \<^verbatim>\<open>args\<close> fields read as \<open>cmd\<close>, \<open>k\<close> and
  \<open>a\<close>, and let \<open>v name\<close> be the value of the property \<open>name\<close> of \<open>a\<close> (\<^verbatim>\<open>undefined\<close> when
  \<open>a\<close> has no such property). If \<open>cmd\<close> is none of the six command names, the dispatch
  returns and leaves the world as it was: no message posted, no adapter call, no fault.
  For \<^verbatim>\<open>Active\<close>, \<^verbatim>\<open>AllJax\<close> and \<^verbatim>\<open>InjectScripts\<close> the dispatch is exactly one call of the
  handler of that name. For \<^verbatim>\<open>AsciiMathToMml\<close>, \<^verbatim>\<open>RegSig\<close> and \<^verbatim>\<open>TexToMml\<close> it is exactly one
  call of the handler of that name, with the values read from \<open>a\<close>, when \<open>a\<close> is neither
  \<^verbatim>\<open>undefined\<close> nor \<^verbatim>\<open>null\<close>; when it is, the dispatch throws a TypeError, invokes no
  handler and leaves the world as it was. Each handler leaves its own adapter call.
\<close>

theorem dispatch_routes_by_cmd:
  assumes "get_prop msg ''cmd'' = Inr cmd"
    and "get_prop msg ''id'' = Inr k"
    and "get_prop msg ''args'' = Inr a"
    and "v = (\<lambda>name. case a of
                JObj fs \<Rightarrow> (case map_of fs name of None \<Rightarrow> JUndefined | Some x \<Rightarrow> x)
              | _ \<Rightarrow> JUndefined)"
  shows "(cmd \<notin> JStr ` {''Active'', ''AllJax'', ''AsciiMathToMml'', ''InjectScripts'',
                         ''RegSig'', ''TexToMml''} \<longrightarrow> execMessage ad msg w = Inr w)
    \<and> (cmd = JStr ''Active'' \<longrightarrow> execMessage ad msg w = Inr (isActive ad k w)
         \<and> calls (isActive ad k w) = calls w @ [ExtIsActive])
    \<and> (cmd = JStr ''AllJax'' \<longrightarrow> execMessage ad msg w = Inr (getAllJax k w)
         \<and> calls (getAllJax k w) = calls w @ [ExtGetAllJax (getMathmlCallback k)])
    \<and> (cmd = JStr ''InjectScripts'' \<longrightarrow> execMessage ad msg w = Inr (injectScripts w)
         \<and> calls (injectScripts w) = calls w @ [ExtInjectConfigScript, ExtInjectLoadScript])
    \<and> (cmd \<in> JStr ` {''AsciiMathToMml'', ''RegSig'', ''TexToMml''}
         \<and> (a = JUndefined \<or> a = JNull) \<longrightarrow> execMessage ad msg w = Inl (TypeError, w))
    \<and> (cmd = JStr ''AsciiMathToMml'' \<and> a \<noteq> JUndefined \<and> a \<noteq> JNull \<longrightarrow>
         execMessage ad msg w = Inr (asciiMathToMml k (v ''alt'') (v ''id'') w)
         \<and> calls (asciiMathToMml k (v ''alt'') (v ''id'') w) =
             calls w @ [ExtAsciiMathToMml (v ''alt'') True (AsciiMathToMmlCont k (v ''id''))])
    \<and> (cmd = JStr ''RegSig'' \<and> a \<noteq> JUndefined \<and> a \<noteq> JNull \<longrightarrow>
         execMessage ad msg w = Inr (registerSignal k (v ''sig'') w)
         \<and> calls (registerSignal k (v ''sig'') w) =
             calls w @ [ExtRegisterSignal (getMathmlCallback k) (v ''sig'')])
    \<and> (cmd = JStr ''TexToMml'' \<and> a \<noteq> JUndefined \<and> a \<noteq> JNull \<longrightarrow>
         execMessage ad msg w = Inr (texToMml k (v ''alt'') (v ''id'') w)
         \<and> calls (texToMml k (v ''alt'') (v ''id'') w) =
             calls w @ [ExtTexToMml (v ''alt'') True (TexToMmlCont k (v ''id''))])"
proof -
  have bad: "get_prop a name = Inl TypeError" if "a = JUndefined \<or> a = JNull" for name
    using get_prop_nullish [OF that] .
  have good: "get_prop a name = Inr (v name)" if "a \<noteq> JUndefined" "a \<noteq> JNull" for name
    using get_prop_value [OF that] by (simp add: assms(4))
  have plain: "(cmd \<notin> JStr ` {''Active'', ''AllJax'', ''AsciiMathToMml'', ''InjectScripts'',
                         ''RegSig'', ''TexToMml''} \<longrightarrow> execMessage ad msg w = Inr w)
    \<and> (cmd = JStr ''Active'' \<longrightarrow> execMessage ad msg w = Inr (isActive ad k w)
         \<and> calls (isActive ad k w) = calls w @ [ExtIsActive])
    \<and> (cmd = JStr ''AllJax'' \<longrightarrow> execMessage ad msg w = Inr (getAllJax k w)
         \<and> calls (getAllJax k w) = calls w @ [ExtGetAllJax (getMathmlCallback k)])
    \<and> (cmd = JStr ''InjectScripts'' \<longrightarrow> execMessage ad msg w = Inr (injectScripts w)
         \<and> calls (injectScripts w) = calls w @ [ExtInjectConfigScript, ExtInjectLoadScript])"
    using assms(1-3)
    by (simp add: execMessage_def isActive_def getAllJax_def injectScripts_def
        adapter_does_def postMessage_def image_def)
  have fault: "cmd \<in> JStr ` {''AsciiMathToMml'', ''RegSig'', ''TexToMml''}
         \<and> (a = JUndefined \<or> a = JNull) \<longrightarrow> execMessage ad msg w = Inl (TypeError, w)"
  proof (intro impI, elim conjE)
    assume known: "cmd \<in> JStr ` {''AsciiMathToMml'', ''RegSig'', ''TexToMml''}"
      and null: "a = JUndefined \<or> a = JNull"
    from known have "cmd = JStr ''AsciiMathToMml'' \<or> cmd = JStr ''RegSig''
        \<or> cmd = JStr ''TexToMml''"
      by auto
    then show "execMessage ad msg w = Inl (TypeError, w)"
      using assms(1-3) bad [OF null] by (auto simp: execMessage_def)
  qed
  have ascii: "cmd = JStr ''AsciiMathToMml'' \<and> a \<noteq> JUndefined \<and> a \<noteq> JNull \<longrightarrow>
         execMessage ad msg w = Inr (asciiMathToMml k (v ''alt'') (v ''id'') w)
         \<and> calls (asciiMathToMml k (v ''alt'') (v ''id'') w) =
             calls w @ [ExtAsciiMathToMml (v ''alt'') True (AsciiMathToMmlCont k (v ''id''))]"
    using assms(1-3) good
    by (simp add: execMessage_def asciiMathToMml_def adapter_does_def)
  have regsig: "cmd = JStr ''RegSig'' \<and> a \<noteq> JUndefined \<and> a \<noteq> JNull \<longrightarrow>
         execMessage ad msg w = Inr (registerSignal k (v ''sig'') w)
         \<and> calls (registerSignal k (v ''sig'') w) =
             calls w @ [ExtRegisterSignal (getMathmlCallback k) (v ''sig'')]"
    using assms(1-3) good
    by (simp add: execMessage_def registerSignal_def adapter_does_def)
  have tex: "cmd = JStr ''TexToMml'' \<and> a \<noteq> JUndefined \<and> a \<noteq> JNull \<longrightarrow>
         execMessage ad msg w = Inr (texToMml k (v ''alt'') (v ''id'') w)
         \<and> calls (texToMml k (v ''alt'') (v ''id'') w) =
             calls w @ [ExtTexToMml (v ''alt'') True (TexToMmlCont k (v ''id''))]"
    using assms(1-3) good
    by (simp add: execMessage_def texToMml_def adapter_does_def)
  show ?thesis
    by (intro conjI plain [THEN conjunct1] plain [THEN conjunct2, THEN conjunct1]
        plain [THEN conjunct2, THEN conjunct2, THEN conjunct1]
        plain [THEN conjunct2, THEN conjunct2, THEN conjunct2] fault ascii regsig tex)
qed

theorem dispatch_scenarios_witness:
  "execMessage \<lparr>present = True\<rparr>
     (JObj [(''cmd'', JStr ''Bogus''), (''id'', JStr ''3''), (''args'', JObj [])]) loaded =
     Inr loaded
   \<and> execMessage \<lparr>present = True\<rparr>
     (JObj [(''cmd'', JStr ''InjectScripts''), (''id'', JStr ''4''), (''args'', JObj [])]) loaded =
     Inr (injectScripts loaded)
   \<and> calls (injectScripts loaded) = [ExtInjectConfigScript, ExtInjectLoadScript]
   \<and> execMessage \<lparr>present = True\<rparr>
     (JObj [(''cmd'', JStr ''RegSig''), (''id'', JStr ''5''),
            (''args'', JObj [(''sig'', JStr ''New Math'')])]) loaded =
     Inr (registerSignal (JStr ''5'') (JStr ''New Math'') loaded)
   \<and> execMessage \<lparr>present = True\<rparr>
     (JObj [(''cmd'', JStr ''RegSig''), (''id'', JStr ''5''), (''args'', JNull)]) loaded =
     Inl (TypeError, loaded)"
proof -
  have bogus: "execMessage \<lparr>present = True\<rparr>
     (JObj [(''cmd'', JStr ''Bogus''), (''id'', JStr ''3''), (''args'', JObj [])]) loaded =
     Inr loaded"
    using dispatch_routes_by_cmd [of "JObj [(''cmd'', JStr ''Bogus''), (''id'', JStr ''3''),
      (''args'', JObj [])]" "JStr ''Bogus''" "JStr ''3''" "JObj []" _ "\<lparr>present = True\<rparr>" loaded,
      OF _ _ _ refl, THEN conjunct1]
    by simp
  have inject: "execMessage \<lparr>present = True\<rparr>
     (JObj [(''cmd'', JStr ''InjectScripts''), (''id'', JStr ''4''), (''args'', JObj [])]) loaded =
     Inr (injectScripts loaded)
   \<and> calls (injectScripts loaded) = [ExtInjectConfigScript, ExtInjectLoadScript]"
    using dispatch_routes_by_cmd [of "JObj [(''cmd'', JStr ''InjectScripts''), (''id'', JStr ''4''),
      (''args'', JObj [])]" "JStr ''InjectScripts''" "JStr ''4''" "JObj []" _
      "\<lparr>present = True\<rparr>" loaded, OF _ _ _ refl]
    by (simp add: loaded_fields)
  have regsig: "execMessage \<lparr>present = True\<rparr>
     (JObj [(''cmd'', JStr ''RegSig''), (''id'', JStr ''5''),
            (''args'', JObj [(''sig'', JStr ''New Math'')])]) loaded =
     Inr (registerSignal (JStr ''5'') (JStr ''New Math'') loaded)"
    using dispatch_routes_by_cmd [of "JObj [(''cmd'', JStr ''RegSig''), (''id'', JStr ''5''),
      (''args'', JObj [(''sig'', JStr ''New Math'')])]" "JStr ''RegSig''" "JStr ''5''"
      "JObj [(''sig'', JStr ''New Math'')]" _ "\<lparr>present = True\<rparr>" loaded, OF _ _ _ refl]
    by simp
  have fault: "execMessage \<lparr>present = True\<rparr>
     (JObj [(''cmd'', JStr ''RegSig''), (''id'', JStr ''5''), (''args'', JNull)]) loaded =
     Inl (TypeError, loaded)"
    using dispatch_routes_by_cmd [of "JObj [(''cmd'', JStr ''RegSig''), (''id'', JStr ''5''),
      (''args'', JNull)]" "JStr ''RegSig''" "JStr ''5''" JNull _ "\<lparr>present = True\<rparr>" loaded,
      OF _ _ _ refl]
    by simp
  from bogus inject regsig fault show ?thesis
    by blast
qed

text \<open>
  A message that is itself \<^verbatim>\<open>undefined\<close> or \<^verbatim>\<open>null\<close> has no fields to read: the first
  statement of the dispatch throws, and the world is unchanged.
\<close>

lemma nullish_message_faults:
  "execMessage ad JUndefined w = Inl (TypeError, w)"
  "execMessage ad JNull w = Inl (TypeError, w)"
  by (simp_all add: execMessage_def)

text \<open>
  C9: for \<^verbatim>\<open>Active\<close>, \<^verbatim>\<open>AllJax\<close> and \<^verbatim>\<open>InjectScripts\<close>, two messages with the same command
  and the same correlation id give the same outcome, whatever their \<^verbatim>\<open>args\<close> fields hold
  (the hypotheses say nothing about \<^verbatim>\<open>args\<close>: it may be absent, null or any value), and
  that outcome is a normal return, never a fault.
\<close>

theorem args_ignored_by_three_commands:
  assumes "c = ''Active'' \<or> c = ''AllJax'' \<or> c = ''InjectScripts''"
    and "get_prop m1 ''cmd'' = Inr (JStr c)"
    and "get_prop m2 ''cmd'' = Inr (JStr c)"
    and "get_prop m1 ''id'' = get_prop m2 ''id''"
  shows "execMessage ad m1 w = execMessage ad m2 w \<and> \<not> isl (execMessage ad m1 w)"
proof -
  obtain a1 a2 k where reads: "get_prop m1 ''args'' = Inr a1" "get_prop m2 ''args'' = Inr a2"
    "get_prop m1 ''id'' = Inr k"
    using get_prop_defined [OF assms(2)] get_prop_defined [OF assms(3)] by blast
  then have "get_prop m2 ''id'' = Inr k"
    using assms(4) by simp
  with reads assms(1,2,3) show ?thesis
    by (auto simp: execMessage_def)
qed

theorem args_ignored_witness:
  "execMessage \<lparr>present = False\<rparr> (JObj [(''cmd'', JStr ''Active''), (''id'', JStr ''7'')]) loaded =
   execMessage \<lparr>present = False\<rparr>
     (JObj [(''cmd'', JStr ''Active''), (''id'', JStr ''7''), (''args'', JNull)]) loaded
   \<and> \<not> isl (execMessage \<lparr>present = False\<rparr>
        (JObj [(''cmd'', JStr ''Active''), (''id'', JStr ''7'')]) loaded)"
  using args_ignored_by_three_commands [of "''Active''"
    "JObj [(''cmd'', JStr ''Active''), (''id'', JStr ''7'')]"
    "JObj [(''cmd'', JStr ''Active''), (''id'', JStr ''7''), (''args'', JNull)]"
    "\<lparr>present = False\<rparr>" loaded]
  by fastforce

subsection \<open>Malformed arguments\<close>

text \<open>
  C8, as the claim states it, fails: a \<^verbatim>\<open>TexToMml\<close> message whose args mapping is empty, so
  that both fields the dispatch reads are missing, raises no fault. The conversion is
  requested for \<^verbatim>\<open>undefined\<close>, and the continuation posts a result envelope whose
  \<^verbatim>\<open>elementId\<close> is \<^verbatim>\<open>undefined\<close>.
\<close>

theorem missing_field_counterexample:
  "execMessage \<lparr>present = True\<rparr>
     (JObj [(''cmd'', JStr ''TexToMml''), (''id'', JStr ''2''), (''args'', JObj [])]) loaded =
     Inr (loaded\<lparr>calls := [ExtTexToMml JUndefined True (TexToMmlCont (JStr ''2'') JUndefined)]\<rparr>)
   \<and> call_closure \<lparr>present = True\<rparr> (TexToMmlCont (JStr ''2'') JUndefined) [JStr ''<math/>'']
       (loaded\<lparr>calls := [ExtTexToMml JUndefined True (TexToMmlCont (JStr ''2'') JUndefined)]\<rparr>) =
     Inr (loaded\<lparr>calls := [ExtTexToMml JUndefined True (TexToMmlCont (JStr ''2'') JUndefined)],
                 sent := [JObj [(''cmd'', JStr ''NodeMml''), (''id'', JStr ''2''),
                   (''args'', JObj [(''mathml'', JStr ''<math/>''),
                                    (''elementId'', JUndefined)])]]\<rparr>)"
  by (simp add: execMessage_def texToMml_def adapter_does_def loaded_eq)

text \<open>
  C8, amended: for \<^verbatim>\<open>AsciiMathToMml\<close>, \<^verbatim>\<open>TexToMml\<close> and \<^verbatim>\<open>RegSig\<close>, when the \<^verbatim>\<open>args\<close> field of
  the message is missing (\<^verbatim>\<open>undefined\<close>) or \<^verbatim>\<open>null\<close>, the dispatch throws a TypeError while it
  reads the field, before any handler or adapter call: the world is unchanged, so nothing
  is posted. Neither the dispatch nor the port handler catches the fault, which reaches
  the host. For every other \<^verbatim>\<open>args\<close> value no fault arises: the dispatch returns after one
  call of the handler, with the values \<open>v name\<close> of the properties read, and the value of a
  property that \<^verbatim>\<open>args\<close> lacks is \<^verbatim>\<open>undefined\<close>.
\<close>

theorem missing_args_faults:
  assumes "c = ''AsciiMathToMml'' \<or> c = ''TexToMml'' \<or> c = ''RegSig''"
    and "get_prop msg ''cmd'' = Inr (JStr c)"
    and "get_prop msg ''id'' = Inr k"
    and "get_prop msg ''args'' = Inr a"
    and "v = (\<lambda>name. case a of
                JObj fs \<Rightarrow> (case map_of fs name of None \<Rightarrow> JUndefined | Some x \<Rightarrow> x)
              | _ \<Rightarrow> JUndefined)"
  shows "(a = JUndefined \<or> a = JNull \<longrightarrow>
            execMessage ad msg w = Inl (TypeError, w)
          \<and> call_closure ad OnMessage [JObj [(''data'', msg)]] w = Inl (TypeError, w)
          \<and> settle (step ad (Incoming msg) (w\<lparr>port1_onmessage := Some OnMessage\<rparr>)) =
              w\<lparr>port1_onmessage := Some OnMessage, uncaught := uncaught w @ [TypeError]\<rparr>)
       \<and> (a \<noteq> JUndefined \<and> a \<noteq> JNull \<longrightarrow>
            execMessage ad msg w =
              Inr (if c = ''AsciiMathToMml'' then asciiMathToMml k (v ''alt'') (v ''id'') w
                   else if c = ''RegSig'' then registerSignal k (v ''sig'') w
                   else texToMml k (v ''alt'') (v ''id'') w))
       \<and> ((\<forall>fs. a = JObj fs \<longrightarrow> map_of fs name = None) \<longrightarrow> v name = JUndefined)"
proof -
  have bad: "get_prop a name = Inl TypeError" if "a = JUndefined \<or> a = JNull" for name
    using get_prop_nullish [OF that] .
  have good: "get_prop a name = Inr (v name)" if "a \<noteq> JUndefined" "a \<noteq> JNull" for name
    using get_prop_value [OF that] by (simp add: assms(5))
  have fault: "execMessage ad msg w' = Inl (TypeError, w')" if "a = JUndefined \<or> a = JNull" for w'
    using assms(1-4) bad [OF that] by (auto simp: execMessage_def)
  have fine: "execMessage ad msg w =
      Inr (if c = ''AsciiMathToMml'' then asciiMathToMml k (v ''alt'') (v ''id'') w
           else if c = ''RegSig'' then registerSignal k (v ''sig'') w
           else texToMml k (v ''alt'') (v ''id'') w)"
    if "a \<noteq> JUndefined" "a \<noteq> JNull"
    using assms(1-4) good [OF that] by (auto simp: execMessage_def)
  have lacking: "v name = JUndefined" if "\<forall>fs. a = JObj fs \<longrightarrow> map_of fs name = None"
    using that by (cases a) (simp_all add: assms(5))
  show ?thesis
    using fault fine lacking by (auto simp: step_def deliver_def settle_def)
qed

theorem missing_args_witness:
  "execMessage \<lparr>present = True\<rparr>
     (JObj [(''cmd'', JStr ''RegSig''), (''id'', JStr ''5'')]) loaded = Inl (TypeError, loaded)
   \<and> call_closure \<lparr>present = True\<rparr> OnMessage
       [JObj [(''data'', JObj [(''cmd'', JStr ''RegSig''), (''id'', JStr ''5'')])]] loaded =
     Inl (TypeError, loaded)
   \<and> settle (step \<lparr>present = True\<rparr>
       (Incoming (JObj [(''cmd'', JStr ''RegSig''), (''id'', JStr ''5'')])) loaded) =
     loaded\<lparr>uncaught := [TypeError]\<rparr>
   \<and> execMessage \<lparr>present = True\<rparr>
       (JObj [(''cmd'', JStr ''RegSig''), (''id'', JStr ''5''), (''args'', JObj [])]) loaded =
     Inr (registerSignal (JStr ''5'') JUndefined loaded)"
proof -
  note absent = missing_args_faults [of "''RegSig''"
      "JObj [(''cmd'', JStr ''RegSig''), (''id'', JStr ''5'')]" "JStr ''5''" JUndefined _
      "\<lparr>present = True\<rparr>" loaded, OF _ _ _ _ refl, THEN conjunct1]
  note empty = missing_args_faults [of "''RegSig''"
      "JObj [(''cmd'', JStr ''RegSig''), (''id'', JStr ''5''), (''args'', JObj [])]" "JStr ''5''"
      "JObj []" _ "\<lparr>present = True\<rparr>" loaded, OF _ _ _ _ refl, THEN conjunct2, THEN conjunct1]
  have faults: "execMessage \<lparr>present = True\<rparr>
     (JObj [(''cmd'', JStr ''RegSig''), (''id'', JStr ''5'')]) loaded = Inl (TypeError, loaded)
   \<and> call_closure \<lparr>present = True\<rparr> OnMessage
       [JObj [(''data'', JObj [(''cmd'', JStr ''RegSig''), (''id'', JStr ''5'')])]] loaded =
     Inl (TypeError, loaded)
   \<and> settle (step \<lparr>present = True\<rparr>
       (Incoming (JObj [(''cmd'', JStr ''RegSig''), (''id'', JStr ''5'')])) loaded) =
     loaded\<lparr>uncaught := [TypeError]\<rparr>"
    using absent by (simp add: loaded_eq)
  have called: "execMessage \<lparr>present = True\<rparr>
       (JObj [(''cmd'', JStr ''RegSig''), (''id'', JStr ''5''), (''args'', JObj [])]) loaded =
     Inr (registerSignal (JStr ''5'') JUndefined loaded)"
    using empty by simp
  from faults called show ?thesis
    by blast
qed

subsection \<open>Channel establishment\<close>

text \<open>
  C7, as the claim states it, fails: starting with the fresh channel that the script
  creates when it loads, two calls of \<^verbatim>\<open>initMessage\<close> leave one channel created, not two,
  on either host; both calls offer the port of that one channel.
\<close>

theorem initMessage_twice_counterexample:
  "channels_created (settle (initMessage legacy_host
      (settle (initMessage legacy_host (new_MessageChannel blank))))) = 1
   \<and> channels_created (settle (initMessage standard_host
      (settle (initMessage standard_host (new_MessageChannel blank))))) = 1"
  by (simp add: initMessage_def window_postMessage_def new_MessageChannel_def blank_def
      settle_def legacy_host_def standard_host_def)

text \<open>
  C7, amended: \<^verbatim>\<open>initMessage\<close> creates no channel; the one channel is created when the
  script loads. On every host, a call registers the forwarding handler on the local port
  and then calls \<^verbatim>\<open>window.postMessage\<close> once with the sentinel, the remote port of that
  channel and the target \<^verbatim>\<open>*\<close>; it returns or throws as the host decides for that call,
  and returns no value. After two calls no channel has been created, the handler is
  registered on the same local port, and the same remote port has been offered twice.
\<close>

theorem initMessage_twice:
  assumes "w1 = w\<lparr>port1_onmessage := Some OnMessage,
                  port2_offers := port2_offers w @ [(''cvox.MathJaxPortSetup'', ''*'')]\<rparr>"
    and "w2 = settle (initMessage h (settle (initMessage h w)))"
  shows "initMessage h w = (case h w1 of None \<Rightarrow> Inr w1 | Some f \<Rightarrow> Inl (f, w1))
       \<and> channels_created w2 = channels_created w
       \<and> port1_onmessage w2 = Some OnMessage
       \<and> port2_offers w2 =
           port2_offers w @ [(''cvox.MathJaxPortSetup'', ''*''), (''cvox.MathJaxPortSetup'', ''*'')]
       \<and> sent w2 = sent w \<and> calls w2 = calls w"
  unfolding assms
  by (simp add: initMessage_def window_postMessage_def settle_def Let_def
      split: option.splits)

theorem initMessage_twice_witness:
  "initMessage legacy_host (new_MessageChannel blank) = Inr loaded
   \<and> channels_created (settle (initMessage legacy_host
        (settle (initMessage legacy_host (new_MessageChannel blank))))) = 1
   \<and> port2_offers (settle (initMessage legacy_host
        (settle (initMessage legacy_host (new_MessageChannel blank))))) =
       [(''cvox.MathJaxPortSetup'', ''*''), (''cvox.MathJaxPortSetup'', ''*'')]"
proof -
  note both = initMessage_twice [OF refl refl, of legacy_host "new_MessageChannel blank"]
  have first: "initMessage legacy_host (new_MessageChannel blank) = Inr loaded"
    using both [THEN conjunct1]
    by (simp add: loaded_eq new_MessageChannel_def blank_def legacy_host_def)
  have count: "channels_created (settle (initMessage legacy_host
        (settle (initMessage legacy_host (new_MessageChannel blank))))) = 1"
    using both [THEN conjunct2, THEN conjunct1] by (simp add: new_MessageChannel_def blank_def)
  have offers: "port2_offers (settle (initMessage legacy_host
        (settle (initMessage legacy_host (new_MessageChannel blank))))) =
       [(''cvox.MathJaxPortSetup'', ''*''), (''cvox.MathJaxPortSetup'', ''*'')]"
    using both [THEN conjunct2, THEN conjunct2, THEN conjunct2, THEN conjunct1]
    by (simp add: new_MessageChannel_def blank_def)
  from first count offers show ?thesis
    by blast
qed

subsection \<open>Repeated invocations\<close>

lemma then_do_Inr [simp]: "then_do (Inr w) k = k w"
  by (simp add: then_do_def)

lemma call_many_mathml:
  "call_many ad (getMathmlCallback k) argss w =
     Inr (w\<lparr>sent := sent w @ map (\<lambda>a. node_envelope k (arg a 0) (arg a 1)) argss\<rparr>)"
  by (induction argss arbitrary: w) simp_all

lemma call_each_mathml:
  "call_each ad (map getMathmlCallback ks) args w =
     Inr (w\<lparr>sent := sent w @ map (\<lambda>k. node_envelope k (arg args 0) (arg args 1)) ks\<rparr>)"
  by (induction ks arbitrary: w) simp_all

lemma subscribers_sent [simp]: "subscribers s (w\<lparr>sent := x\<rparr>) = subscribers s w"
  by (simp add: subscribers_def)

lemma fire_many_mathml:
  "subscribers s w = map getMathmlCallback ks \<Longrightarrow>
   fire_many ad s argss w =
     Inr (w\<lparr>sent := sent w @
            concat (map (\<lambda>a. map (\<lambda>k. node_envelope k (arg a 0) (arg a 1)) ks) argss)\<rparr>)"
  by (induction argss arbitrary: w) (simp_all add: fire_def call_each_mathml)

lemma subscribers_registerSignal:
  "subscribers s (registerSignal k s' w) =
     subscribers s w @ (if s' = s then [getMathmlCallback k] else [])"
  by (simp add: subscribers_def registerSignal_def adapter_does_def)

lemma filter_two_ids:
  "k \<noteq> k' \<Longrightarrow>
   filter (\<lambda>v. get_prop v ''id'' = Inr k)
     (concat (map (\<lambda>a. map (\<lambda>k. node_envelope k (arg a 0) (arg a 1)) [k, k']) argss)) =
   map (\<lambda>a. node_envelope k (arg a 0) (arg a 1)) argss
   \<and> filter (\<lambda>v. get_prop v ''id'' = Inr k')
     (concat (map (\<lambda>a. map (\<lambda>k. node_envelope k (arg a 0) (arg a 1)) [k, k']) argss)) =
   map (\<lambda>a. node_envelope k' (arg a 0) (arg a 1)) argss"
  by (induction argss) auto

text \<open>
  C2: a \<^verbatim>\<open>RegSig\<close> command with correlation id \<open>k\<close> and signal \<open>s\<close> (the args field \<^verbatim>\<open>sig\<close>)
  registers with the adapter, for \<open>s\<close>, the function that posts under \<open>k\<close>. Every
  invocation of that function posts one new envelope with id \<open>k\<close>: a list of invocations
  of any length gives as many envelopes, in order. When a second registration with
  another correlation id \<open>k'\<close> is made on the same signal, every firing of the signal gives
  one envelope under \<open>k\<close> and one under \<open>k'\<close>, and the envelopes under each id are those that
  this registration alone would have received.
\<close>

theorem regsig_envelope_per_firing:
  assumes "get_prop msg ''cmd'' = Inr (JStr ''RegSig'')"
    and "get_prop msg ''id'' = Inr k"
    and "get_prop msg ''args'' = Inr a"
    and "get_prop a ''sig'' = Inr s"
    and "both = concat (map (\<lambda>a. [node_envelope k (arg a 0) (arg a 1),
                                   node_envelope k' (arg a 0) (arg a 1)]) argss)"
  shows "execMessage ad msg w = Inr (registerSignal k s w)
    \<and> calls (registerSignal k s w) = calls w @ [ExtRegisterSignal (getMathmlCallback k) s]
    \<and> sent (registerSignal k s w) = sent w
    \<and> call_many ad (getMathmlCallback k) argss w' =
        Inr (w'\<lparr>sent := sent w' @ map (\<lambda>a. node_envelope k (arg a 0) (arg a 1)) argss\<rparr>)
    \<and> length (map (\<lambda>a. node_envelope k (arg a 0) (arg a 1)) argss) = length argss
    \<and> (subscribers s w = [] \<and> k \<noteq> k' \<longrightarrow>
         fire_many ad s argss (registerSignal k' s (registerSignal k s w)) =
           Inr ((registerSignal k' s (registerSignal k s w))\<lparr>sent := sent w @ both\<rparr>)
       \<and> filter (\<lambda>v. get_prop v ''id'' = Inr k) both =
           map (\<lambda>a. node_envelope k (arg a 0) (arg a 1)) argss
       \<and> filter (\<lambda>v. get_prop v ''id'' = Inr k') both =
           map (\<lambda>a. node_envelope k' (arg a 0) (arg a 1)) argss)"
proof -
  have dispatch: "execMessage ad msg w = Inr (registerSignal k s w)"
    using assms(1-4) by (simp add: execMessage_def)
  have shape: "calls (registerSignal k s w) =
      calls w @ [ExtRegisterSignal (getMathmlCallback k) s]" "sent (registerSignal k s w) = sent w"
    by (simp_all add: registerSignal_def adapter_does_def)
  have two: "fire_many ad s argss (registerSignal k' s (registerSignal k s w)) =
      Inr ((registerSignal k' s (registerSignal k s w))\<lparr>sent := sent w @ both\<rparr>)"
    if "subscribers s w = []"
  proof -
    have "subscribers s (registerSignal k' s (registerSignal k s w)) =
        map getMathmlCallback [k, k']"
      using that by (simp add: subscribers_registerSignal)
    from fire_many_mathml [OF this, of ad argss] show ?thesis
      by (simp add: assms(5) registerSignal_def adapter_does_def)
  qed
  show ?thesis
    using dispatch shape two filter_two_ids [of k k' argss]
    by (simp add: call_many_mathml assms(5))
qed

theorem regsig_two_registrations_witness:
  "execMessage \<lparr>present = True\<rparr>
     (JObj [(''cmd'', JStr ''RegSig''), (''id'', JStr ''r1''),
            (''args'', JObj [(''sig'', JStr ''New Math'')])]) loaded =
     Inr (registerSignal (JStr ''r1'') (JStr ''New Math'') loaded)
   \<and> fire_many \<lparr>present = True\<rparr> (JStr ''New Math'')
       [[JStr ''<math>a</math>'', JStr ''n1''], [JStr ''<math>b</math>'', JStr ''n2'']]
       (registerSignal (JStr ''r2'') (JStr ''New Math'')
         (registerSignal (JStr ''r1'') (JStr ''New Math'') loaded)) =
     Inr ((registerSignal (JStr ''r2'') (JStr ''New Math'')
            (registerSignal (JStr ''r1'') (JStr ''New Math'') loaded))
          \<lparr>sent := [node_envelope (JStr ''r1'') (JStr ''<math>a</math>'') (JStr ''n1''),
                    node_envelope (JStr ''r2'') (JStr ''<math>a</math>'') (JStr ''n1''),
                    node_envelope (JStr ''r1'') (JStr ''<math>b</math>'') (JStr ''n2''),
                    node_envelope (JStr ''r2'') (JStr ''<math>b</math>'') (JStr ''n2'')]\<rparr>)"
proof -
  have none: "subscribers (JStr ''New Math'') loaded = []"
    by (simp add: subscribers_def loaded_eq)
  show ?thesis
    using none regsig_envelope_per_firing [of
      "JObj [(''cmd'', JStr ''RegSig''), (''id'', JStr ''r1''),
             (''args'', JObj [(''sig'', JStr ''New Math'')])]"
      "JStr ''r1''" "JObj [(''sig'', JStr ''New Math'')]" "JStr ''New Math''" _ "JStr ''r2''"
      "[[JStr ''<math>a</math>'', JStr ''n1''], [JStr ''<math>b</math>'', JStr ''n2'']]"
      "\<lparr>present = True\<rparr>" loaded loaded, OF _ _ _ _ refl]
    by (simp add: loaded_fields del: fire_many.simps)
qed

subsection \<open>Enumeration\<close>

text \<open>
  C6: an \<^verbatim>\<open>AllJax\<close> command with correlation id \<open>k\<close> hands the adapter's enumeration the
  function that posts under \<open>k\<close>, and posts nothing by itself. When the enumeration invokes
  that function once per math node, with the argument lists \<open>argss\<close>, the messages posted
  are one envelope per invocation, in order: as many as invocations, each with id \<open>k\<close>,
  each with the element id that the adapter passed. So the element ids of the envelopes
  are pairwise distinct whenever those of the enumeration are.
\<close>

theorem allJax_envelope_per_node:
  assumes "get_prop msg ''cmd'' = Inr (JStr ''AllJax'')"
    and "get_prop msg ''id'' = Inr k"
    and "new = map (\<lambda>a. node_envelope k (arg a 0) (arg a 1)) argss"
  shows "execMessage ad msg w =
           Inr (w\<lparr>calls := calls w @ [ExtGetAllJax (getMathmlCallback k)]\<rparr>)
    \<and> call_many ad (getMathmlCallback k) argss w' = Inr (w'\<lparr>sent := sent w' @ new\<rparr>)
    \<and> length new = length argss
    \<and> map (\<lambda>v. get_prop v ''id'') new = replicate (length argss) (Inr k)
    \<and> map elementId_of new = map (\<lambda>a. Inr (arg a 1)) argss
    \<and> (distinct (map (\<lambda>a. arg a 1) argss) \<longrightarrow> distinct (map elementId_of new))"
proof -
  obtain a where "get_prop msg ''args'' = Inr a"
    using get_prop_defined [OF assms(1)] by blast
  then have dispatch: "execMessage ad msg w =
      Inr (w\<lparr>calls := calls w @ [ExtGetAllJax (getMathmlCallback k)]\<rparr>)"
    using assms(1,2) by (simp add: execMessage_def getAllJax_def adapter_does_def)
  have ids: "map elementId_of new = map (\<lambda>a. Inr (arg a 1)) argss"
    by (simp add: assms(3) elementId_of_def)
  have "distinct (map elementId_of new)" if "distinct (map (\<lambda>a. arg a 1) argss)"
  proof -
    have "map elementId_of new = map Inr (map (\<lambda>a. arg a 1) argss)"
      using ids by simp
    then show ?thesis
      using that by (simp add: distinct_map del: map_map)
  qed
  then show ?thesis
    using dispatch ids by (simp add: call_many_mathml assms(3) map_replicate_const o_def)
qed

theorem allJax_two_nodes_witness:
  "execMessage \<lparr>present = True\<rparr>
     (JObj [(''cmd'', JStr ''AllJax''), (''id'', JStr ''9''), (''args'', JObj [])]) loaded =
     Inr (loaded\<lparr>calls := [ExtGetAllJax (getMathmlCallback (JStr ''9''))]\<rparr>)
   \<and> call_many \<lparr>present = True\<rparr> (getMathmlCallback (JStr ''9''))
       [[JStr ''<math>a</math>'', JStr ''n1''], [JStr ''<math>b</math>'', JStr ''n2'']] loaded =
     Inr (loaded\<lparr>sent := [node_envelope (JStr ''9'') (JStr ''<math>a</math>'') (JStr ''n1''),
                          node_envelope (JStr ''9'') (JStr ''<math>b</math>'') (JStr ''n2'')]\<rparr>)
   \<and> distinct (map elementId_of
       [node_envelope (JStr ''9'') (JStr ''<math>a</math>'') (JStr ''n1''),
        node_envelope (JStr ''9'') (JStr ''<math>b</math>'') (JStr ''n2'')])"
  using allJax_envelope_per_node [of
      "JObj [(''cmd'', JStr ''AllJax''), (''id'', JStr ''9''), (''args'', JObj [])]"
      "JStr ''9''" _ "[[JStr ''<math>a</math>'', JStr ''n1''], [JStr ''<math>b</math>'', JStr ''n2'']]"
      "\<lparr>present = True\<rparr>" loaded loaded, OF _ _ refl]
  by (simp add: loaded_eq del: call_many.simps)

subsection \<open>Invariants of every run\<close>

lemma settle_fields [simp]:
  "sent (settle (Inr w)) = sent w" "sent (settle (Inl (f, w))) = sent w"
  "calls (settle (Inr w)) = calls w" "calls (settle (Inl (f, w))) = calls w"
  by (simp_all add: settle_def)

lemma result_envelope_posted:
  "result_envelope (JObj [(''cmd'', JStr ''Active''), (''id'', k), (''args'', a)])"
  "result_envelope (JObj [(''cmd'', JStr ''NodeMml''), (''id'', k), (''args'', a)])"
  by (simp_all add: result_envelope_def)

lemma get_prop_fault: "get_prop v name = Inl f \<Longrightarrow> f = TypeError"
  by (cases v) auto

lemma execMessage_outcomes:
  assumes "P (Inl (TypeError, w))"
    and "P (Inr w)"
    and "\<And>k. get_prop msg ''id'' = Inr k \<Longrightarrow> P (Inr (isActive ad k w))"
    and "\<And>k. get_prop msg ''id'' = Inr k \<Longrightarrow> P (Inr (getAllJax k w))"
    and "\<And>k t e. get_prop msg ''id'' = Inr k \<Longrightarrow> P (Inr (asciiMathToMml k t e w))"
    and "P (Inr (injectScripts w))"
    and "\<And>k s. get_prop msg ''id'' = Inr k \<Longrightarrow> P (Inr (registerSignal k s w))"
    and "\<And>k t e. get_prop msg ''id'' = Inr k \<Longrightarrow> P (Inr (texToMml k t e w))"
  shows "P (execMessage ad msg w)"
proof (cases "get_prop msg ''args''")
  case (Inl f)
  then show ?thesis
    using get_prop_fault [OF Inl] assms(1) by (simp add: execMessage_def)
next
  case (Inr a)
  obtain cmd where cmd: "get_prop msg ''cmd'' = Inr cmd"
    using get_prop_defined [OF Inr] by blast
  obtain k where k: "get_prop msg ''id'' = Inr k"
    using get_prop_defined [OF Inr] by blast
  have rd: "P (read_prop a name w f)" if "\<And>x. P (f x)" for name f
  proof (cases "get_prop a name")
    case (Inl g)
    then show ?thesis
      using get_prop_fault [OF Inl] assms(1) by simp
  next
    case (Inr x)
    then show ?thesis
      using that by simp
  qed
  have eq: "execMessage ad msg w =
      (if cmd = JStr ''Active'' then Inr (isActive ad k w)
       else if cmd = JStr ''AllJax'' then Inr (getAllJax k w)
       else if cmd = JStr ''AsciiMathToMml'' then
         read_prop a ''alt'' w (\<lambda>alt.
         read_prop a ''id'' w (\<lambda>cvoxId. Inr (asciiMathToMml k alt cvoxId w)))
       else if cmd = JStr ''InjectScripts'' then Inr (injectScripts w)
       else if cmd = JStr ''RegSig'' then
         read_prop a ''sig'' w (\<lambda>signal. Inr (registerSignal k signal w))
       else if cmd = JStr ''TexToMml'' then
         read_prop a ''alt'' w (\<lambda>alt.
         read_prop a ''id'' w (\<lambda>cvoxId. Inr (texToMml k alt cvoxId w)))
       else Inr w)"
    using Inr cmd k by (simp add: execMessage_def)
  show ?thesis
    unfolding eq by (simp add: rd assms k)
qed

lemma execMessage_sent:
  "list_all result_envelope (sent w) \<Longrightarrow>
   list_all result_envelope (sent (settle (execMessage ad msg w)))"
  by (rule execMessage_outcomes)
     (simp_all add: isActive_def getAllJax_def asciiMathToMml_def injectScripts_def
      registerSignal_def texToMml_def adapter_does_def postMessage_def result_envelope_posted)

lemma execMessage_calls:
  "list_all bridge_call (calls w) \<Longrightarrow>
   list_all bridge_call (calls (settle (execMessage ad msg w)))"
  by (rule execMessage_outcomes)
     (simp_all add: isActive_def getAllJax_def asciiMathToMml_def injectScripts_def
      registerSignal_def texToMml_def adapter_does_def postMessage_def getMathmlCallback_def)

lemma call_closure_sent:
  "list_all result_envelope (sent w) \<Longrightarrow>
   list_all result_envelope (sent (settle (call_closure ad c args w)))"
proof (cases c)
  case OnMessage
  assume "list_all result_envelope (sent w)"
  then show ?thesis
    using OnMessage execMessage_sent [of w ad]
    by (cases "get_prop (arg args 0) ''data''") (simp_all add: read_prop_def)
qed (simp_all add: result_envelope_posted postMessage_def)

lemma call_closure_calls:
  "list_all bridge_call (calls w) \<Longrightarrow>
   list_all bridge_call (calls (settle (call_closure ad c args w)))"
proof (cases c)
  case OnMessage
  assume "list_all bridge_call (calls w)"
  then show ?thesis
    using OnMessage execMessage_calls [of w ad]
    by (cases "get_prop (arg args 0) ''data''") (simp_all add: read_prop_def)
qed (simp_all add: postMessage_def)

lemma step_sent:
  "list_all result_envelope (sent w) \<Longrightarrow>
   list_all result_envelope (sent (settle (step ad e w)))"
  using call_closure_sent [of w ad]
  by (auto simp: step_def deliver_def split: event.splits option.splits)

lemma step_calls:
  "list_all bridge_call (calls w) \<Longrightarrow>
   list_all bridge_call (calls (settle (step ad e w)))"
  using call_closure_calls [of w ad]
  by (auto simp: step_def deliver_def split: event.splits option.splits)

lemma run_sent:
  "list_all result_envelope (sent w) \<Longrightarrow> list_all result_envelope (sent (run ad es w))"
  by (induction es arbitrary: w) (simp_all add: step_sent)

lemma run_calls:
  "list_all bridge_call (calls w) \<Longrightarrow> list_all bridge_call (calls (run ad es w))"
  by (induction es arbitrary: w) (simp_all add: step_calls)

lemma bridge_call_display: "bridge_call c \<Longrightarrow> display_flag_true c"
  by (erule bridge_call.elims) simp_all

lemma settle_onmessage [simp]:
  "port1_onmessage (settle (Inr w)) = port1_onmessage w"
  "port1_onmessage (settle (Inl (f, w))) = port1_onmessage w"
  by (simp_all add: settle_def)

lemma traceable_mono: "traceable K w \<Longrightarrow> K \<subseteq> K' \<Longrightarrow> traceable K' w"
  unfolding traceable_def by blast

lemma traceable_settle_Inl: "traceable K (settle (Inl (f, w))) = traceable K w"
  by (simp add: traceable_def)

lemma traceable_execMessage:
  assumes "traceable K w"
  shows "traceable (insert (get_prop msg ''id'') K) (settle (execMessage ad msg w))"
proof (rule execMessage_outcomes)
  have up: "traceable (insert (get_prop msg ''id'') K) w"
    using assms by (rule traceable_mono) blast
  show "traceable (insert (get_prop msg ''id'') K) (settle (Inl (TypeError, w)))"
    using up by (simp add: traceable_settle_Inl)
  show "traceable (insert (get_prop msg ''id'') K) (settle (Inr w))"
    using up by (simp add: settle_def)
  show "traceable (insert (get_prop msg ''id'') K) (settle (Inr (injectScripts w)))"
    using up by (simp add: traceable_def injectScripts_def adapter_does_def)
  fix k assume k: "get_prop msg ''id'' = Inr k"
  show "traceable (insert (get_prop msg ''id'') K) (settle (Inr (isActive ad k w)))"
    using up k by (simp add: traceable_def isActive_def adapter_does_def postMessage_def)
  show "traceable (insert (get_prop msg ''id'') K) (settle (Inr (getAllJax k w)))"
    using up k
    by (auto simp: traceable_def getAllJax_def adapter_does_def getMathmlCallback_def)
  show "traceable (insert (get_prop msg ''id'') K) (settle (Inr (asciiMathToMml k t e w)))"
    for t e
    using up k by (auto simp: traceable_def asciiMathToMml_def adapter_does_def)
  show "traceable (insert (get_prop msg ''id'') K) (settle (Inr (registerSignal k s w)))"
    for s
    using up k
    by (auto simp: traceable_def registerSignal_def adapter_does_def getMathmlCallback_def)
  show "traceable (insert (get_prop msg ''id'') K) (settle (Inr (texToMml k t e w)))"
    for t e
    using up k by (auto simp: traceable_def texToMml_def adapter_does_def)
qed

lemma traceable_callback:
  assumes "traceable K w" and "captured_id f = Some k" and "Inr k \<in> K"
  shows "traceable K (settle (call_closure ad f args w))"
  using assms by (cases f) (simp_all add: traceable_def postMessage_def getMathmlCallback_def)

lemma traceable_step:
  assumes "traceable K w"
  shows "traceable (K \<union> (\<lambda>d. get_prop d ''id'') ` set (delivered [e])) (settle (step ad e w))"
proof (cases e)
  case (Incoming d)
  have "traceable (insert (get_prop d ''id'') K) (settle (deliver ad d w))"
  proof (cases "port1_onmessage w")
    case None
    then show ?thesis
      using traceable_mono [OF assms, of "insert (get_prop d ''id'') K"]
      by (auto simp: deliver_def settle_def)
  next
    case (Some h)
    then have "h = OnMessage"
      using assms by (simp add: traceable_def)
    then show ?thesis
      using Some traceable_execMessage [OF assms, of d ad] by (simp add: deliver_def)
  qed
  then show ?thesis
    using Incoming by (simp add: step_def)
next
  case (Invoke i args)
  show ?thesis
  proof (cases "i < length (calls w)")
    case False
    then show ?thesis
      using Invoke assms by (simp add: step_def settle_def)
  next
    case True
    show ?thesis
    proof (cases "callback_of (calls w ! i)")
      case None
      then show ?thesis
        using Invoke True assms by (simp add: step_def settle_def)
    next
      case (Some f)
      have "calls w ! i \<in> set (calls w)"
        using True by simp
      then obtain k where "captured_id f = Some k" "Inr k \<in> K"
        using assms Some unfolding traceable_def by blast
      then show ?thesis
        using Invoke True Some traceable_callback [OF assms] by (simp add: step_def)
    qed
  qed
qed

lemma traceable_run:
  "traceable K w \<Longrightarrow>
   traceable (K \<union> (\<lambda>d. get_prop d ''id'') ` set (delivered es)) (run ad es w)"
proof (induction es arbitrary: K w)
  case Nil
  then show ?case by simp
next
  case (Cons e es)
  have "traceable (K \<union> (\<lambda>d. get_prop d ''id'') ` set (delivered [e])) (settle (step ad e w))"
    using Cons.prems by (rule traceable_step)
  from Cons.IH [OF this] show ?case
    by (cases e) (simp_all add: Un_assoc)
qed

lemma traceable_loaded: "traceable {} loaded"
  by (simp add: traceable_def loaded_eq)

lemma captured_id_behaviour:
  assumes "captured_id f = Some k"
  shows "(\<forall>args w. call_closure ad f args w =
            call_closure ad (getMathmlCallback k) [arg args 0, arg args 1] w)
       \<or> (\<exists>e. \<forall>args w. call_closure ad f args w =
            call_closure ad (getMathmlCallback k) [arg args 0, e] w)"
proof (cases f)
  case OnMessage
  then show ?thesis
    using assms by simp
next
  case (MathmlCallback k')
  then have "\<forall>args w. call_closure ad f args w =
      call_closure ad (getMathmlCallback k) [arg args 0, arg args 1] w"
    using assms by (simp add: getMathmlCallback_def)
  then show ?thesis ..
next
  case (TexToMmlCont k' e)
  then have "\<forall>args w. call_closure ad f args w =
      call_closure ad (getMathmlCallback k) [arg args 0, e] w"
    using assms by simp
  then show ?thesis by blast
next
  case (AsciiMathToMmlCont k' e)
  then have "\<forall>args w. call_closure ad f args w =
      call_closure ad (getMathmlCallback k) [arg args 0, e] w"
    using assms by simp
  then show ?thesis by blast
qed

lemma dispatch_hands_shared:
  assumes cmd: "get_prop msg ''cmd'' = Inr (JStr c)"
    and k: "get_prop msg ''id'' = Inr k"
    and ret: "execMessage ad msg w = Inr w'"
  shows "(c = ''AllJax'' \<longrightarrow> w' = w\<lparr>calls := calls w @ [ExtGetAllJax (getMathmlCallback k)]\<rparr>)
    \<and> (c = ''RegSig'' \<longrightarrow>
         (\<exists>s. w' = w\<lparr>calls := calls w @ [ExtRegisterSignal (getMathmlCallback k) s]\<rparr>))
    \<and> (c = ''TexToMml'' \<longrightarrow>
         (\<exists>t e. w' = w\<lparr>calls := calls w @ [ExtTexToMml t True (TexToMmlCont k e)]\<rparr>))
    \<and> (c = ''AsciiMathToMml'' \<longrightarrow>
         (\<exists>t e. w' = w\<lparr>calls := calls w @
            [ExtAsciiMathToMml t True (AsciiMathToMmlCont k e)]\<rparr>))"
proof -
  obtain a where a: "get_prop msg ''args'' = Inr a"
    using get_prop_defined [OF cmd] by blast
  have allJax: "w' = w\<lparr>calls := calls w @ [ExtGetAllJax (getMathmlCallback k)]\<rparr>"
    if "c = ''AllJax''"
    using that cmd k a ret by (simp add: execMessage_def getAllJax_def adapter_does_def)
  have reads: "a \<noteq> JUndefined \<and> a \<noteq> JNull"
    if "c = ''RegSig'' \<or> c = ''TexToMml'' \<or> c = ''AsciiMathToMml''"
  proof (rule ccontr)
    assume "\<not> (a \<noteq> JUndefined \<and> a \<noteq> JNull)"
    then have "a = JUndefined \<or> a = JNull"
      by blast
    then have "execMessage ad msg w = Inl (TypeError, w)"
      using that cmd k a get_prop_nullish [of a] by (auto simp: execMessage_def)
    with ret show False
      by simp
  qed
  have regsig: "\<exists>s. w' = w\<lparr>calls := calls w @ [ExtRegisterSignal (getMathmlCallback k) s]\<rparr>"
    if c: "c = ''RegSig''"
  proof -
    from reads c have ne: "a \<noteq> JUndefined" "a \<noteq> JNull"
      by simp_all
    show ?thesis
      using c cmd k a ret get_prop_value [OF ne, of "''sig''"]
      by (auto simp: execMessage_def registerSignal_def adapter_does_def)
  qed
  have tex: "\<exists>t e. w' = w\<lparr>calls := calls w @ [ExtTexToMml t True (TexToMmlCont k e)]\<rparr>"
    if c: "c = ''TexToMml''"
  proof -
    from reads c have ne: "a \<noteq> JUndefined" "a \<noteq> JNull"
      by simp_all
    show ?thesis
      using c cmd k a ret get_prop_value [OF ne, of "''alt''"] get_prop_value [OF ne, of "''id''"]
      by (auto simp: execMessage_def texToMml_def adapter_does_def)
  qed
  have ascii: "\<exists>t e. w' = w\<lparr>calls := calls w @
      [ExtAsciiMathToMml t True (AsciiMathToMmlCont k e)]\<rparr>"
    if c: "c = ''AsciiMathToMml''"
  proof -
    from reads c have ne: "a \<noteq> JUndefined" "a \<noteq> JNull"
      by simp_all
    show ?thesis
      using c cmd k a ret get_prop_value [OF ne, of "''alt''"] get_prop_value [OF ne, of "''id''"]
      by (auto simp: execMessage_def asciiMathToMml_def adapter_does_def)
  qed
  show ?thesis
    using allJax regsig tex ascii by blast
qed

text \<open>
  C5: in every run of the loaded bridge, whatever messages arrive and whatever functions
  the adapter invokes with whatever arguments, every message the bridge has posted on its
  port is an object with exactly the properties \<^verbatim>\<open>cmd\<close>, \<^verbatim>\<open>id\<close>, \<^verbatim>\<open>args\<close> whose \<^verbatim>\<open>cmd\<close> is
  \<^verbatim>\<open>Active\<close> or \<^verbatim>\<open>NodeMml\<close>, and its \<^verbatim>\<open>id\<close> is the \<^verbatim>\<open>id\<close> of a message that arrived in that
  run. Every function that the bridge has handed to the adapter does, for the correlation
  id \<open>k\<close> of a message that arrived, what the function made by \<^verbatim>\<open>getMathmlCallback_\<close> for
  \<open>k\<close> does: on the markup and element id it is invoked with, or on the markup and one
  fixed element id. A dispatch of \<^verbatim>\<open>AllJax\<close> or \<^verbatim>\<open>RegSig\<close> with correlation id \<open>k\<close> hands over
  the function made by \<^verbatim>\<open>getMathmlCallback_\<close> for that \<open>k\<close>; a dispatch of \<^verbatim>\<open>TexToMml\<close> or
  \<^verbatim>\<open>AsciiMathToMml\<close> hands over a continuation for that \<open>k\<close>, which calls the function made
  by \<^verbatim>\<open>getMathmlCallback_\<close> for \<open>k\<close> on the markup and its element id. That function posts
  the \<^verbatim>\<open>NodeMml\<close> envelope with id \<open>k\<close> and args exactly \<^verbatim>\<open>mathml\<close> and \<^verbatim>\<open>elementId\<close>.
\<close>

theorem envelopes_have_wire_shape:
  "list_all result_envelope (sent (run ad es loaded))
   \<and> (\<forall>v \<in> set (sent (run ad es loaded)).
        \<exists>d \<in> set (delivered es). get_prop v ''id'' = get_prop d ''id'')
   \<and> (\<forall>c \<in> set (calls (run ad es loaded)). \<forall>f. callback_of c = Some f \<longrightarrow>
        (\<exists>d \<in> set (delivered es). \<exists>k. get_prop d ''id'' = Inr k \<and>
           ((\<forall>args w. call_closure ad f args w =
               call_closure ad (getMathmlCallback k) [arg args 0, arg args 1] w)
            \<or> (\<exists>e. \<forall>args w. call_closure ad f args w =
               call_closure ad (getMathmlCallback k) [arg args 0, e] w))))
   \<and> (get_prop msg ''cmd'' = Inr (JStr c) \<and> get_prop msg ''id'' = Inr k
        \<and> execMessage ad msg w = Inr w' \<longrightarrow>
        (c = ''AllJax'' \<longrightarrow> w' = w\<lparr>calls := calls w @ [ExtGetAllJax (getMathmlCallback k)]\<rparr>)
      \<and> (c = ''RegSig'' \<longrightarrow>
           (\<exists>s. w' = w\<lparr>calls := calls w @ [ExtRegisterSignal (getMathmlCallback k) s]\<rparr>))
      \<and> (c = ''TexToMml'' \<longrightarrow>
           (\<exists>t e. w' = w\<lparr>calls := calls w @ [ExtTexToMml t True (TexToMmlCont k e)]\<rparr>))
      \<and> (c = ''AsciiMathToMml'' \<longrightarrow>
           (\<exists>t e. w' = w\<lparr>calls := calls w @
              [ExtAsciiMathToMml t True (AsciiMathToMmlCont k e)]\<rparr>)))
   \<and> call_closure ad (TexToMmlCont k e) (m # rest) w =
       call_closure ad (getMathmlCallback k) [m, e] w
   \<and> call_closure ad (AsciiMathToMmlCont k e) (m # rest) w =
       call_closure ad (getMathmlCallback k) [m, e] w
   \<and> call_closure ad (getMathmlCallback k) [m, e] w =
       Inr (w\<lparr>sent := sent w @ [JObj [(''cmd'', JStr ''NodeMml''), (''id'', k),
              (''args'', JObj [(''mathml'', m), (''elementId'', e)])]]\<rparr>)"
proof -
  have shape: "list_all result_envelope (sent (run ad es loaded))"
    by (rule run_sent) (simp add: loaded_fields)
  have inv: "traceable ((\<lambda>d. get_prop d ''id'') ` set (delivered es)) (run ad es loaded)"
    using traceable_run [OF traceable_loaded, of es ad] by simp
  have ids: "\<forall>v \<in> set (sent (run ad es loaded)).
      \<exists>d \<in> set (delivered es). get_prop v ''id'' = get_prop d ''id''"
    using inv by (auto simp: traceable_def)
  have handed: "\<exists>d \<in> set (delivered es). \<exists>k. get_prop d ''id'' = Inr k \<and>
           ((\<forall>args w. call_closure ad f args w =
               call_closure ad (getMathmlCallback k) [arg args 0, arg args 1] w)
            \<or> (\<exists>e. \<forall>args w. call_closure ad f args w =
               call_closure ad (getMathmlCallback k) [arg args 0, e] w))"
    if "c \<in> set (calls (run ad es loaded))" "callback_of c = Some f" for c f
  proof -
    from inv have "\<forall>c \<in> set (calls (run ad es loaded)). \<forall>f. callback_of c = Some f \<longrightarrow>
        (\<exists>k. captured_id f = Some k
           \<and> Inr k \<in> (\<lambda>d. get_prop d ''id'') ` set (delivered es))"
      by (simp add: traceable_def)
    with that obtain k where k: "captured_id f = Some k"
      and "Inr k \<in> (\<lambda>d. get_prop d ''id'') ` set (delivered es)"
      by blast
    then obtain d where "d \<in> set (delivered es)" "get_prop d ''id'' = Inr k"
      by auto
    then show ?thesis
      using captured_id_behaviour [OF k, of ad] by blast
  qed
  have dispatch: "get_prop msg ''cmd'' = Inr (JStr c) \<and> get_prop msg ''id'' = Inr k
        \<and> execMessage ad msg w = Inr w' \<longrightarrow>
        (c = ''AllJax'' \<longrightarrow> w' = w\<lparr>calls := calls w @ [ExtGetAllJax (getMathmlCallback k)]\<rparr>)
      \<and> (c = ''RegSig'' \<longrightarrow>
           (\<exists>s. w' = w\<lparr>calls := calls w @ [ExtRegisterSignal (getMathmlCallback k) s]\<rparr>))
      \<and> (c = ''TexToMml'' \<longrightarrow>
           (\<exists>t e. w' = w\<lparr>calls := calls w @ [ExtTexToMml t True (TexToMmlCont k e)]\<rparr>))
      \<and> (c = ''AsciiMathToMml'' \<longrightarrow>
           (\<exists>t e. w' = w\<lparr>calls := calls w @
              [ExtAsciiMathToMml t True (AsciiMathToMmlCont k e)]\<rparr>))"
    using dispatch_hands_shared [of msg c k ad w w'] by blast
  have conts: "call_closure ad (TexToMmlCont k e) (m # rest) w =
       call_closure ad (getMathmlCallback k) [m, e] w"
     "call_closure ad (AsciiMathToMmlCont k e) (m # rest) w =
       call_closure ad (getMathmlCallback k) [m, e] w"
     "call_closure ad (getMathmlCallback k) [m, e] w =
       Inr (w\<lparr>sent := sent w @ [JObj [(''cmd'', JStr ''NodeMml''), (''id'', k),
              (''args'', JObj [(''mathml'', m), (''elementId'', e)])]]\<rparr>)"
    by simp_all
  from handed have handed': "\<forall>c \<in> set (calls (run ad es loaded)). \<forall>f. callback_of c = Some f \<longrightarrow>
        (\<exists>d \<in> set (delivered es). \<exists>k. get_prop d ''id'' = Inr k \<and>
           ((\<forall>args w. call_closure ad f args w =
               call_closure ad (getMathmlCallback k) [arg args 0, arg args 1] w)
            \<or> (\<exists>e. \<forall>args w. call_closure ad f args w =
               call_closure ad (getMathmlCallback k) [arg args 0, e] w)))"
    by blast
  show ?thesis
    by (intro conjI shape ids handed' dispatch conts)
qed

theorem envelopes_wire_shape_witness:
  "list_all result_envelope (sent (run \<lparr>present = True\<rparr>
     [Incoming (JObj [(''cmd'', JStr ''Active''), (''id'', JStr ''1''), (''args'', JObj [])]),
      Incoming (JObj [(''cmd'', JStr ''AllJax''), (''id'', JStr ''2'')]),
      Invoke 1 [JStr ''<math/>'', JStr ''n1'']] loaded))
   \<and> sent (run \<lparr>present = True\<rparr>
     [Incoming (JObj [(''cmd'', JStr ''Active''), (''id'', JStr ''1''), (''args'', JObj [])]),
      Incoming (JObj [(''cmd'', JStr ''AllJax''), (''id'', JStr ''2'')]),
      Invoke 1 [JStr ''<math/>'', JStr ''n1'']] loaded) =
     [JObj [(''cmd'', JStr ''Active''), (''id'', JStr ''1''),
            (''args'', JObj [(''status'', JBool True)])],
      node_envelope (JStr ''2'') (JStr ''<math/>'') (JStr ''n1'')]
   \<and> calls (run \<lparr>present = True\<rparr>
     [Incoming (JObj [(''cmd'', JStr ''Active''), (''id'', JStr ''1''), (''args'', JObj [])]),
      Incoming (JObj [(''cmd'', JStr ''AllJax''), (''id'', JStr ''2'')]),
      Invoke 1 [JStr ''<math/>'', JStr ''n1'']] loaded) =
     [ExtIsActive, ExtGetAllJax (MathmlCallback (JStr ''2''))]
   \<and> (\<exists>d \<in> set [JObj [(''cmd'', JStr ''Active''), (''id'', JStr ''1''), (''args'', JObj [])],
                   JObj [(''cmd'', JStr ''AllJax''), (''id'', JStr ''2'')]].
        \<exists>k. get_prop d ''id'' = Inr k \<and>
           ((\<forall>args w. call_closure \<lparr>present = True\<rparr> (MathmlCallback (JStr ''2'')) args w =
               call_closure \<lparr>present = True\<rparr> (getMathmlCallback k) [arg args 0, arg args 1] w)
            \<or> (\<exists>e. \<forall>args w. call_closure \<lparr>present = True\<rparr> (MathmlCallback (JStr ''2'')) args w =
               call_closure \<lparr>present = True\<rparr> (getMathmlCallback k) [arg args 0, e] w)))
   \<and> loaded\<lparr>calls := [ExtGetAllJax (getMathmlCallback (JStr ''2''))]\<rparr> =
       loaded\<lparr>calls := calls loaded @ [ExtGetAllJax (getMathmlCallback (JStr ''2''))]\<rparr>"
proof -
  let ?alljax = "JObj [(''cmd'', JStr ''AllJax''), (''id'', JStr ''2'')]"
  let ?es = "[Incoming (JObj [(''cmd'', JStr ''Active''), (''id'', JStr ''1''),
        (''args'', JObj [])]),
      Incoming ?alljax,
      Invoke 1 [JStr ''<math/>'', JStr ''n1'']]"
  let ?w' = "loaded\<lparr>calls := [ExtGetAllJax (getMathmlCallback (JStr ''2''))]\<rparr>"
  note all = envelopes_have_wire_shape [of "\<lparr>present = True\<rparr>" ?es ?alljax "''AllJax''"
      "JStr ''2''" loaded ?w']
  have shape: "list_all result_envelope (sent (run \<lparr>present = True\<rparr> ?es loaded))"
    using all [THEN conjunct1] .
  have trace: "sent (run \<lparr>present = True\<rparr> ?es loaded) =
     [JObj [(''cmd'', JStr ''Active''), (''id'', JStr ''1''),
            (''args'', JObj [(''status'', JBool True)])],
      node_envelope (JStr ''2'') (JStr ''<math/>'') (JStr ''n1'')]"
    by (simp add: step_def deliver_def settle_def execMessage_def isActive_def getAllJax_def
        postMessage_def adapter_does_def loaded_eq getMathmlCallback_def)
  have made: "calls (run \<lparr>present = True\<rparr> ?es loaded) =
     [ExtIsActive, ExtGetAllJax (MathmlCallback (JStr ''2''))]"
    by (simp add: step_def deliver_def settle_def execMessage_def isActive_def getAllJax_def
        postMessage_def adapter_does_def loaded_eq getMathmlCallback_def)
  have handed: "\<exists>d \<in> set [JObj [(''cmd'', JStr ''Active''), (''id'', JStr ''1''),
        (''args'', JObj [])], ?alljax].
        \<exists>k. get_prop d ''id'' = Inr k \<and>
           ((\<forall>args w. call_closure \<lparr>present = True\<rparr> (MathmlCallback (JStr ''2'')) args w =
               call_closure \<lparr>present = True\<rparr> (getMathmlCallback k) [arg args 0, arg args 1] w)
            \<or> (\<exists>e. \<forall>args w. call_closure \<lparr>present = True\<rparr> (MathmlCallback (JStr ''2'')) args w =
               call_closure \<lparr>present = True\<rparr> (getMathmlCallback k) [arg args 0, e] w))"
  proof -
    have "ExtGetAllJax (MathmlCallback (JStr ''2'')) \<in>
        set (calls (run \<lparr>present = True\<rparr> ?es loaded))"
      unfolding made by simp
    from all [THEN conjunct2, THEN conjunct2, THEN conjunct1, rule_format, OF this,
        of "MathmlCallback (JStr ''2'')"]
    show ?thesis
      by simp
  qed
  have ret: "execMessage \<lparr>present = True\<rparr> ?alljax loaded = Inr ?w'"
    by (simp add: execMessage_def getAllJax_def adapter_does_def loaded_fields)
  have dispatched: "?w' =
      loaded\<lparr>calls := calls loaded @ [ExtGetAllJax (getMathmlCallback (JStr ''2''))]\<rparr>"
    using ret all [THEN conjunct2, THEN conjunct2, THEN conjunct2, THEN conjunct1]
    by simp
  from shape trace made handed dispatched show ?thesis
    by blast
qed

subsection \<open>The display flag\<close>

text \<open>
  C10: a \<^verbatim>\<open>TexToMml\<close> or \<^verbatim>\<open>AsciiMathToMml\<close> dispatch that returns has made exactly one
  adapter call, the conversion of that name with display flag true. In every run of the
  loaded bridge, whatever messages arrive and whatever the adapter invokes, every
  conversion ever requested from the adapter has display flag true.
\<close>

theorem conversions_display_true:
  assumes cmd: "get_prop msg ''cmd'' = Inr (JStr c)"
    and c: "c = ''TexToMml'' \<or> c = ''AsciiMathToMml''"
    and ret: "execMessage ad msg w = Inr w'"
  shows "(\<exists>t f. calls w' = calls w @
            [if c = ''TexToMml'' then ExtTexToMml t True f else ExtAsciiMathToMml t True f])
       \<and> list_all display_flag_true (calls (run ad' es loaded))"
proof -
  obtain k a where k: "get_prop msg ''id'' = Inr k" and a: "get_prop msg ''args'' = Inr a"
    using get_prop_defined [OF cmd] by blast
  have "\<exists>t. get_prop a ''alt'' = Inr t"
    using ret cmd c k a
    by (cases "get_prop a ''alt''") (auto simp: execMessage_def)
  then obtain t where t: "get_prop a ''alt'' = Inr t" ..
  have "\<exists>e. get_prop a ''id'' = Inr e"
    using ret cmd c k a t
    by (cases "get_prop a ''id''") (auto simp: execMessage_def)
  then obtain e where e: "get_prop a ''id'' = Inr e" ..
  have made: "calls w' = calls w @
      [if c = ''TexToMml'' then ExtTexToMml t True (TexToMmlCont k e)
       else ExtAsciiMathToMml t True (AsciiMathToMmlCont k e)]"
    using ret cmd c k a t e
    by (auto simp: execMessage_def texToMml_def asciiMathToMml_def adapter_does_def)
  have one: "\<exists>t f. calls w' = calls w @
      [if c = ''TexToMml'' then ExtTexToMml t True f else ExtAsciiMathToMml t True f]"
  proof (cases "c = ''TexToMml''")
    case True
    with made have "calls w' = calls w @ [ExtTexToMml t True (TexToMmlCont k e)]"
      by simp
    with True show ?thesis
      by simp
  next
    case False
    with made have "calls w' = calls w @ [ExtAsciiMathToMml t True (AsciiMathToMmlCont k e)]"
      by simp
    with False show ?thesis
      by simp
  qed
  have "list_all bridge_call (calls (run ad' es loaded))"
    by (rule run_calls) (simp add: loaded_fields)
  then have "list_all display_flag_true (calls (run ad' es loaded))"
    by (simp add: list_all_iff bridge_call_display)
  with one show ?thesis
    by blast
qed

theorem conversions_display_witness:
  "(\<exists>t f. calls (loaded\<lparr>calls :=
        [ExtTexToMml (JStr ''x^2'') True (TexToMmlCont (JStr ''2'') (JStr ''elemA''))]\<rparr>) =
      calls loaded @ [ExtTexToMml t True f])
   \<and> list_all display_flag_true (calls (run \<lparr>present = True\<rparr>
     [Incoming (JObj [(''cmd'', JStr ''TexToMml''), (''id'', JStr ''2''),
        (''args'', JObj [(''alt'', JStr ''x^2''), (''id'', JStr ''elemA''),
                         (''display'', JBool False)])]),
      Incoming (JObj [(''cmd'', JStr ''AsciiMathToMml''), (''id'', JStr ''3''),
        (''args'', JObj [(''alt'', JStr ''x/y''), (''id'', JStr ''elemB'')])])] loaded))
   \<and> calls (run \<lparr>present = True\<rparr>
     [Incoming (JObj [(''cmd'', JStr ''TexToMml''), (''id'', JStr ''2''),
        (''args'', JObj [(''alt'', JStr ''x^2''), (''id'', JStr ''elemA''),
                         (''display'', JBool False)])]),
      Incoming (JObj [(''cmd'', JStr ''AsciiMathToMml''), (''id'', JStr ''3''),
        (''args'', JObj [(''alt'', JStr ''x/y''), (''id'', JStr ''elemB'')])])] loaded) =
     [ExtTexToMml (JStr ''x^2'') True (TexToMmlCont (JStr ''2'') (JStr ''elemA'')),
      ExtAsciiMathToMml (JStr ''x/y'') True (AsciiMathToMmlCont (JStr ''3'') (JStr ''elemB''))]"
proof -
  let ?msg = "JObj [(''cmd'', JStr ''TexToMml''), (''id'', JStr ''2''),
        (''args'', JObj [(''alt'', JStr ''x^2''), (''id'', JStr ''elemA''),
                         (''display'', JBool False)])]"
  let ?es = "[Incoming ?msg,
      Incoming (JObj [(''cmd'', JStr ''AsciiMathToMml''), (''id'', JStr ''3''),
        (''args'', JObj [(''alt'', JStr ''x/y''), (''id'', JStr ''elemB'')])])]"
  have cmd: "get_prop ?msg ''cmd'' = Inr (JStr ''TexToMml'')"
    by simp
  have ret: "execMessage \<lparr>present = True\<rparr> ?msg loaded = Inr (loaded\<lparr>calls :=
      [ExtTexToMml (JStr ''x^2'') True (TexToMmlCont (JStr ''2'') (JStr ''elemA''))]\<rparr>)"
    by (simp add: execMessage_def texToMml_def adapter_does_def loaded_fields)
  note both = conversions_display_true [OF cmd _ ret, of "\<lparr>present = True\<rparr>" ?es]
  have one: "\<exists>t f. calls (loaded\<lparr>calls :=
        [ExtTexToMml (JStr ''x^2'') True (TexToMmlCont (JStr ''2'') (JStr ''elemA''))]\<rparr>) =
      calls loaded @ [ExtTexToMml t True f]"
    using both by simp
  have flags: "list_all display_flag_true (calls (run \<lparr>present = True\<rparr> ?es loaded))"
    using both by simp
  have trace: "calls (run \<lparr>present = True\<rparr> ?es loaded) =
     [ExtTexToMml (JStr ''x^2'') True (TexToMmlCont (JStr ''2'') (JStr ''elemA'')),
      ExtAsciiMathToMml (JStr ''x/y'') True (AsciiMathToMmlCont (JStr ''3'') (JStr ''elemB''))]"
    by (simp add: step_def deliver_def settle_def execMessage_def texToMml_def
        asciiMathToMml_def adapter_does_def loaded_eq)
  from one flags trace show ?thesis
    by blast
qed

end
